theory Spec2Isabelle
  imports Complex_Main "HOL-Library.AList"
begin

section \<open>Data model of the chess session server (server/socketServer.js)\<close>

text \<open>
  The server keeps three process-wide containers: \<open>games\<close> (a JavaScript \<open>Map\<close> from game id
  to \<open>Game\<close> object, iterated in insertion order), \<open>waitingPlayers\<close> (an array) and
  \<open>players\<close> (a \<open>Map\<close> from socket id to player object). Every socket handler runs to
  completion on the single JavaScript thread, so a handler is a function from the server state to the
  new server state together with the list of things it sent, in the order of sending.

  Numbers: ratings, clock values in milliseconds and \<open>Date.now()\<close> readings are modelled
  as \<open>int\<close>. The coordinates of a move request come in two models. \<open>makeMove\<close> and
  \<open>handleMove\<close> take integers, which is what the repository's client sends. The source does
  not test what it receives, though, and indexes arrays with it: \<open>makeMoveRaw\<close> and
  \<open>handleMoveRaw\<close> take any number or a missing field, and have the exception that the
  source throws on a row that is not an index. The two models agree on integers
  (\<open>makeMoveRaw_int\<close>, \<open>handleMoveRaw_int\<close>).

  Piece symbols: the source stores one-character strings, always one of the twelve chess symbols of
  \<open>getInitialBoard\<close>; \<open>null\<close> is an empty square. The model has one constructor for each symbol
  and \<open>None\<close> for \<open>null\<close>.
\<close>

datatype color = White | Black

datatype piece =
  WKing | WQueen | WRook | WBishop | WKnight | WPawn
| BKing | BQueen | BRook | BBishop | BKnight | BPawn

datatype status = Playing | Check | Checkmate | Draw | Resigned | TimeOut | Disconnected

record player =
  p_id :: string
  p_name :: string
  p_rating :: int

record move =
  m_from :: "int \<times> int"
  m_to :: "int \<times> int"
  m_piece :: piece
  m_captured :: "piece option"
  m_timestamp :: int
  m_player :: color

type_synonym board = "piece option list list"

record game =
  g_id :: string
  white :: player
  black :: player
  board :: board
  currentPlayer :: color
  moves :: "move list"
  status :: status
  whiteTime :: int
  blackTime :: int
  lastMoveTime :: int
  spectators :: "string set"

text \<open>\<open>Game.getGameState\<close>: the snapshot sent with most events.\<close>

record gameState =
  gs_id :: string
  gs_board :: board
  gs_currentPlayer :: color
  gs_status :: status
  gs_whiteTime :: int
  gs_blackTime :: int
  gs_moves :: "move list"
  gs_white :: player
  gs_black :: player
  gs_spectators :: nat

text \<open>The entries of \<open>gamesList\<close> and the payload of \<open>gameCreated\<close>.\<close>

record gameSummary =
  gl_id :: string
  gl_white :: string
  gl_whiteRating :: int
  gl_black :: string
  gl_blackRating :: int
  gl_status :: status
  gl_spectators :: nat

datatype result = WhiteWins | BlackWins | DrawResult

datatype reason =
  WhiteTimeExpired | BlackTimeExpired | PlayerResigned string | DrawAgreed | PlayerLeft string

datatype moveErrorMsg = GameOrPlayerNotFound | InvalidMove

datatype event =
  Registered string string int
| GamesList "(gameSummary \<times> color) list"
| WaitingForMatch nat nat
| GameFound string color string int gameState
| GameCreated gameSummary
| MoveError moveErrorMsg
| MoveMade move gameState
| GameEnded result reason gameState
| SpectateError
| SpectatingStarted string gameState
| DrawOffered string string
| PlayerDisconnected string gameState
| TimeUpdate int int

text \<open>
  Recipients: \<open>socket.emit\<close> (one socket), \<open>io.to(gameId).emit\<close> (the room of a game) and
  \<open>io.emit\<close> (everybody).
\<close>

datatype scope = ToSocket string | ToRoom string | ToAll

text \<open>
  What a handler does to the outside: it emits an event, or it arms a timer
  (\<open>setTimeout\<close> with its delay in milliseconds, the game id and the socket id its closure holds).
\<close>

datatype effect = Emit scope event | SetTimeout int string string

record server =
  games :: "(string \<times> game) list"
  waitingPlayers :: "player list"
  players :: "string \<rightharpoonup> player"

section \<open>The Game class\<close>

definition getInitialBoard :: board where
  "getInitialBoard =
    [ [Some BRook, Some BKnight, Some BBishop, Some BQueen, Some BKing, Some BBishop, Some BKnight, Some BRook],
      [Some BPawn, Some BPawn, Some BPawn, Some BPawn, Some BPawn, Some BPawn, Some BPawn, Some BPawn],
      [None, None, None, None, None, None, None, None],
      [None, None, None, None, None, None, None, None],
      [None, None, None, None, None, None, None, None],
      [None, None, None, None, None, None, None, None],
      [Some WPawn, Some WPawn, Some WPawn, Some WPawn, Some WPawn, Some WPawn, Some WPawn, Some WPawn],
      [Some WRook, Some WKnight, Some WBishop, Some WQueen, Some WKing, Some WBishop, Some WKnight, Some WRook] ]"

text \<open>The constructor; \<open>now\<close> is the reading of \<open>Date.now()\<close>.\<close>

definition newGame :: "string \<Rightarrow> player \<Rightarrow> player \<Rightarrow> int \<Rightarrow> game" where
  "newGame gameId w b now =
    \<lparr> g_id = gameId, white = w, black = b, board = getInitialBoard, currentPlayer = White,
      moves = [], status = Playing, whiteTime = 15 * 60 * 1000, blackTime = 15 * 60 * 1000,
      lastMoveTime = now, spectators = {} \<rparr>"

text \<open>
  Reading and writing a square. The board is always eight rows of eight squares
  (\<open>wf_board\<close> below) and \<open>makeMove\<close> touches it only after its bounds check, so the
  out-of-range branches are never taken by the server; they are written out to keep the functions
  total: reading gives \<open>None\<close>, writing changes nothing.
\<close>

definition cellAt :: "board \<Rightarrow> int \<Rightarrow> int \<Rightarrow> piece option" where
  "cellAt b r c =
    (if 0 \<le> r \<and> nat r < length b \<and> 0 \<le> c \<and> nat c < length (b ! nat r)
     then b ! nat r ! nat c else None)"

definition setCell :: "board \<Rightarrow> int \<Rightarrow> int \<Rightarrow> piece option \<Rightarrow> board" where
  "setCell b r c v =
    (if 0 \<le> r \<and> nat r < length b \<and> 0 \<le> c \<and> nat c < length (b ! nat r)
     then b[nat r := (b ! nat r)[nat c := v]] else b)"

definition wf_board :: "board \<Rightarrow> bool" where
  "wf_board b = (length b = 8 \<and> list_all (\<lambda>row. length row = 8) b)"

text \<open>The two \<open>includes\<close> tests of \<open>makeMove\<close>, in the order of the source's strings.\<close>

definition isWhitePiece :: "piece \<Rightarrow> bool" where
  "isWhitePiece p = (p \<in> set [WKing, WQueen, WRook, WBishop, WKnight, WPawn])"

definition isBlackPiece :: "piece \<Rightarrow> bool" where
  "isBlackPiece p = (p \<in> set [BKing, BQueen, BRook, BBishop, BKnight, BPawn])"

text \<open>
  \<open>Game.makeMove\<close>. The result \<open>None\<close> is the source's \<open>false\<close>; \<open>now\<close> is the
  reading of \<open>Date.now()\<close> taken after validation. The field updates follow the source's order:
  clock, checkpoint time, destination square, origin square, move log, side to move.
\<close>

definition makeMove ::
  "game \<Rightarrow> int \<Rightarrow> int \<Rightarrow> int \<Rightarrow> int \<Rightarrow> string \<Rightarrow> int \<Rightarrow> move option \<times> game" where
  "makeMove g fromRow fromCol toRow toCol playerId now =
    (let isWhitePlayer = (p_id (white g) = playerId);
         isBlackPlayer = (p_id (black g) = playerId)
     in
     if \<not> isWhitePlayer \<and> \<not> isBlackPlayer then (None, g)
     else if (currentPlayer g = White \<and> \<not> isWhitePlayer) \<or>
             (currentPlayer g = Black \<and> \<not> isBlackPlayer) then (None, g)
     else if fromRow < 0 \<or> fromRow > 7 \<or> fromCol < 0 \<or> fromCol > 7 \<or>
             toRow < 0 \<or> toRow > 7 \<or> toCol < 0 \<or> toCol > 7 then (None, g)
     else
       (case cellAt (board g) fromRow fromCol of
          None \<Rightarrow> (None, g)
        | Some pc \<Rightarrow>
            if (currentPlayer g = White \<and> \<not> isWhitePiece pc) \<or>
               (currentPlayer g = Black \<and> \<not> isBlackPiece pc) then (None, g)
            else
              (let timeDiff = now - lastMoveTime g;
                   g1 = (if currentPlayer g = White
                         then g\<lparr>whiteTime := whiteTime g - timeDiff\<rparr>
                         else g\<lparr>blackTime := blackTime g - timeDiff\<rparr>);
                   g2 = g1\<lparr>lastMoveTime := now\<rparr>;
                   capturedPiece = cellAt (board g2) toRow toCol;
                   g3 = g2\<lparr>board := setCell (board g2) toRow toCol (Some pc)\<rparr>;
                   g4 = g3\<lparr>board := setCell (board g3) fromRow fromCol None\<rparr>;
                   mv = \<lparr> m_from = (fromRow, fromCol), m_to = (toRow, toCol), m_piece = pc,
                          m_captured = capturedPiece, m_timestamp = now,
                          m_player = currentPlayer g4 \<rparr>;
                   g5 = g4\<lparr>moves := moves g4 @ [mv]\<rparr>;
                   g6 = g5\<lparr>currentPlayer := (if currentPlayer g5 = White then Black else White)\<rparr>
               in (Some mv, g6))))"

definition getGameState :: "game \<Rightarrow> gameState" where
  "getGameState g =
    \<lparr> gs_id = g_id g, gs_board = board g, gs_currentPlayer = currentPlayer g,
      gs_status = status g, gs_whiteTime = whiteTime g, gs_blackTime = blackTime g,
      gs_moves = moves g, gs_white = white g, gs_black = black g,
      gs_spectators = card (spectators g) \<rparr>"


definition gameSummaryOf :: "game \<Rightarrow> gameSummary" where
  "gameSummaryOf g =
    \<lparr> gl_id = g_id g, gl_white = p_name (white g), gl_whiteRating = p_rating (white g),
      gl_black = p_name (black g), gl_blackRating = p_rating (black g),
      gl_status = status g, gl_spectators = card (spectators g) \<rparr>"

section \<open>The socket handlers\<close>

text \<open>
  A \<open>Game\<close> object is mutated in place while it sits in the \<open>games\<close> map; the model writes the
  changed record back under its key. \<open>AList.update\<close> replaces the entry of an existing key
  where it stands and appends a new key at the end, as \<open>Map.set\<close> does; \<open>map_of\<close> is
  \<open>Map.get\<close> and \<open>AList.delete\<close> is \<open>Map.delete\<close>.
\<close>

definition setGame :: "server \<Rightarrow> string \<Rightarrow> game \<Rightarrow> server" where
  "setGame s gameId g = s\<lparr>games := AList.update gameId g (games s)\<rparr>"

text \<open>\<open>Array.prototype.findIndex\<close> (\<open>None\<close> is the source's \<open>-1\<close>) and \<open>splice(i, 1)\<close>.\<close>

fun findIndex :: "('a \<Rightarrow> bool) \<Rightarrow> 'a list \<Rightarrow> nat option" where
  "findIndex P [] = None"
| "findIndex P (x # xs) = (if P x then Some 0 else map_option Suc (findIndex P xs))"

definition splice1 :: "nat \<Rightarrow> 'a list \<Rightarrow> 'a list" where
  "splice1 i xs = take i xs @ drop (Suc i) xs"

text \<open>The first ticket of a socket id is taken out of the queue (\<open>findMatch\<close> and \<open>disconnect\<close>).\<close>

definition removeWaiting :: "string \<Rightarrow> player list \<Rightarrow> player list" where
  "removeWaiting socketId ws =
    (case findIndex (\<lambda>p. p_id p = socketId) ws of
       None \<Rightarrow> ws
     | Some existingIndex \<Rightarrow> splice1 existingIndex ws)"

text \<open>
  \<open>register\<close>. The payload's \<open>name\<close> and \<open>rating\<close> may be missing (\<open>None\<close>); the
  source's \<open>||\<close> also replaces an empty name and a rating of \<open>0\<close> by the default. The default
  name is a fixed prefix (the UTF-8 bytes of the source's literal) followed by the last four characters
  of the socket id.
\<close>

definition defaultNamePrefix :: string where
  "defaultNamePrefix =
    [CHR 0xD0, CHR 0x98, CHR 0xD0, CHR 0xB3, CHR 0xD1, CHR 0x80, CHR 0xD0, CHR 0xBE,
     CHR 0xD0, CHR 0xBA, CHR 0x5F]"

definition register :: "server \<Rightarrow> string \<Rightarrow> string option \<Rightarrow> int option \<Rightarrow> server \<times> effect list" where
  "register s socketId name rating =
    (let pl = \<lparr> p_id = socketId,
                p_name = (case name of
                            None \<Rightarrow> defaultNamePrefix @ drop (length socketId - 4) socketId
                          | Some n \<Rightarrow> if n = [] then defaultNamePrefix @ drop (length socketId - 4) socketId
                                      else n),
                p_rating = (case rating of None \<Rightarrow> 1500 | Some r \<Rightarrow> if r = 0 then 1500 else r) \<rparr>;
         s1 = s\<lparr>players := (players s)(socketId \<mapsto> pl)\<rparr>
     in (s1,
         [Emit (ToSocket socketId) (Registered socketId (p_name pl) (p_rating pl)),
          Emit (ToSocket socketId)
            (GamesList (map (\<lambda>(k, g). (gameSummaryOf g, currentPlayer g)) (games s1)))]))"

text \<open>
  \<open>findMatch\<close> (\<open>handleMatchmaking\<close>). \<open>prefRange\<close> is \<open>preferences.ratingRange\<close>, absent
  when \<open>None\<close>; the local \<open>ratingRange\<close> is \<open>preferences.ratingRange || 200\<close>, so the default
  also stands in for a requested range of \<open>0\<close>. \<open>isPlayerWhite\<close> is the outcome of
  \<open>Math.random() > 0.5\<close>, \<open>gameId\<close> the result of \<open>uuidv4()\<close> and \<open>now\<close> the clock
  reading of the \<open>Game\<close> constructor.
\<close>

definition handleMatchmaking ::
  "server \<Rightarrow> string \<Rightarrow> int option \<Rightarrow> bool \<Rightarrow> string \<Rightarrow> int \<Rightarrow> server \<times> effect list" where
  "handleMatchmaking s socketId prefRange isPlayerWhite gameId now =
    (case players s socketId of
       None \<Rightarrow> (s, [])
     | Some pl \<Rightarrow>
         (let w1 = removeWaiting socketId (waitingPlayers s);
              ratingRange = (case prefRange of None \<Rightarrow> 200 | Some r \<Rightarrow> if r = 0 then 200 else r)
          in case findIndex (\<lambda>waitingPlayer. \<bar>p_rating waitingPlayer - p_rating pl\<bar> \<le> ratingRange) w1 of
               Some matchIndex \<Rightarrow>
                 (let opponent = w1 ! matchIndex;
                      w2 = splice1 matchIndex w1;
                      wh = (if isPlayerWhite then pl else opponent);
                      bl = (if isPlayerWhite then opponent else pl);
                      g = newGame gameId wh bl now;
                      s1 = (setGame (s\<lparr>waitingPlayers := w2\<rparr>) gameId g)
                  in (s1,
                      [Emit (ToSocket (p_id wh))
                         (GameFound gameId White (p_name bl) (p_rating bl) (getGameState g)),
                       Emit (ToSocket (p_id bl))
                         (GameFound gameId Black (p_name wh) (p_rating wh) (getGameState g)),
                       Emit ToAll (GameCreated (gameSummaryOf g))]))
             | None \<Rightarrow>
                 (let w2 = w1 @ [pl]
                  in (s\<lparr>waitingPlayers := w2\<rparr>,
                      [Emit (ToSocket socketId) (WaitingForMatch (length w2) (length w2 * 30))]))))"

text \<open>
  \<open>makeMove\<close> (\<open>handleMove\<close>): look the game and the caller up, call \<open>Game.makeMove\<close>,
  broadcast, then the end-of-game check on the clocks.
\<close>

definition handleMove ::
  "server \<Rightarrow> string \<Rightarrow> string \<Rightarrow> int \<Rightarrow> int \<Rightarrow> int \<Rightarrow> int \<Rightarrow> int \<Rightarrow> server \<times> effect list" where
  "handleMove s socketId gameId fromRow fromCol toRow toCol now =
    (case map_of (games s) gameId of
       None \<Rightarrow> (s, [Emit (ToSocket socketId) (MoveError GameOrPlayerNotFound)])
     | Some g \<Rightarrow>
        (case players s socketId of
           None \<Rightarrow> (s, [Emit (ToSocket socketId) (MoveError GameOrPlayerNotFound)])
         | Some pl \<Rightarrow>
            (case makeMove g fromRow fromCol toRow toCol socketId now of
               (None, g1) \<Rightarrow> (setGame s gameId g1, [Emit (ToSocket socketId) (MoveError InvalidMove)])
             | (Some mv, g1) \<Rightarrow>
                 if whiteTime g1 \<le> 0 then
                   (let g2 = g1\<lparr>status := TimeOut\<rparr>
                    in (setGame s gameId g2,
                        [Emit (ToRoom gameId) (MoveMade mv (getGameState g1)),
                         Emit (ToRoom gameId) (GameEnded BlackWins WhiteTimeExpired (getGameState g2))]))
                 else if blackTime g1 \<le> 0 then
                   (let g2 = g1\<lparr>status := TimeOut\<rparr>
                    in (setGame s gameId g2,
                        [Emit (ToRoom gameId) (MoveMade mv (getGameState g1)),
                         Emit (ToRoom gameId) (GameEnded WhiteWins BlackTimeExpired (getGameState g2))]))
                 else
                   (setGame s gameId g1,
                    [Emit (ToRoom gameId) (MoveMade mv (getGameState g1))]))))"

definition handleSpectate :: "server \<Rightarrow> string \<Rightarrow> string \<Rightarrow> server \<times> effect list" where
  "handleSpectate s socketId gameId =
    (case map_of (games s) gameId of
       None \<Rightarrow> (s, [Emit (ToSocket socketId) SpectateError])
     | Some g \<Rightarrow>
         (let g1 = g\<lparr>spectators := insert socketId (spectators g)\<rparr>
          in (setGame s gameId g1,
              [Emit (ToSocket socketId) (SpectatingStarted gameId (getGameState g1))])))"

definition handleResign :: "server \<Rightarrow> string \<Rightarrow> string \<Rightarrow> server \<times> effect list" where
  "handleResign s socketId gameId =
    (case map_of (games s) gameId of
       None \<Rightarrow> (s, [])
     | Some g \<Rightarrow>
        (case players s socketId of
           None \<Rightarrow> (s, [])
         | Some pl \<Rightarrow>
            (let isWhite = (p_id (white g) = socketId);
                 isBlack = (p_id (black g) = socketId)
             in if \<not> isWhite \<and> \<not> isBlack then (s, [])
                else
                  (let g1 = g\<lparr>status := Resigned\<rparr>
                   in (setGame s gameId g1,
                       [Emit (ToRoom gameId)
                          (GameEnded (if isWhite then BlackWins else WhiteWins)
                             (PlayerResigned (p_name pl)) (getGameState g1))])))))"

definition handleDrawOffer :: "server \<Rightarrow> string \<Rightarrow> string \<Rightarrow> server \<times> effect list" where
  "handleDrawOffer s socketId gameId =
    (case map_of (games s) gameId of
       None \<Rightarrow> (s, [])
     | Some g \<Rightarrow>
        (case players s socketId of
           None \<Rightarrow> (s, [])
         | Some pl \<Rightarrow>
            (let isWhite = (p_id (white g) = socketId);
                 opponent = (if isWhite then black g else white g)
             in (s, [Emit (ToSocket (p_id opponent)) (DrawOffered gameId (p_name pl))]))))"

definition handleDrawAccept :: "server \<Rightarrow> string \<Rightarrow> string \<Rightarrow> server \<times> effect list" where
  "handleDrawAccept s socketId gameId =
    (case map_of (games s) gameId of
       None \<Rightarrow> (s, [])
     | Some g \<Rightarrow>
         (let g1 = g\<lparr>status := Draw\<rparr>
          in (setGame s gameId g1,
              [Emit (ToRoom gameId) (GameEnded DrawResult DrawAgreed (getGameState g1))])))"

text \<open>
  \<open>disconnect\<close> (\<open>handleDisconnect\<close>). The loop over \<open>games\<close> announces the disconnection
  in every game the socket plays in (when the socket is registered), arms the 30000 ms timer for it,
  and takes the socket out of the spectators of every game.
\<close>

fun disconnectGames ::
  "string \<Rightarrow> player option \<Rightarrow> (string \<times> game) list \<Rightarrow> (string \<times> game) list \<times> effect list" where
  "disconnectGames socketId pl [] = ([], [])"
| "disconnectGames socketId pl ((gameId, g) # rest) =
    (let out = (if p_id (white g) = socketId \<or> p_id (black g) = socketId
                then (case pl of
                        None \<Rightarrow> []
                      | Some p \<Rightarrow> [Emit (ToRoom gameId) (PlayerDisconnected (p_name p) (getGameState g))])
                     @ [SetTimeout 30000 gameId socketId]
                else []);
         g1 = g\<lparr>spectators := spectators g - {socketId}\<rparr>;
         (rest1, outs) = disconnectGames socketId pl rest
     in ((gameId, g1) # rest1, out @ outs))"

definition handleDisconnect :: "server \<Rightarrow> string \<Rightarrow> server \<times> effect list" where
  "handleDisconnect s socketId =
    (let w1 = removeWaiting socketId (waitingPlayers s);
         (gs1, outs) = disconnectGames socketId (players s socketId) (games s)
     in (s\<lparr>waitingPlayers := w1, games := gs1, players := (players s)(socketId := None)\<rparr>, outs))"

text \<open>
  The callback of the timer armed by \<open>disconnect\<close>, run when the 30000 ms have passed. The
  \<open>game\<close> of its closure is the object that \<open>games\<close> holds under \<open>gameId\<close> whenever that
  key is present, because a key is a fresh UUID that is set once.
\<close>

definition disconnectTimeout :: "server \<Rightarrow> string \<Rightarrow> string \<Rightarrow> server \<times> effect list" where
  "disconnectTimeout s gameId socketId =
    (case map_of (games s) gameId of
       None \<Rightarrow> (s, [])
     | Some g \<Rightarrow>
         (let disconnectedPlayer = (if p_id (white g) = socketId then white g else black g);
              winner = (if p_id (white g) = socketId then BlackWins else WhiteWins);
              g1 = g\<lparr>status := Disconnected\<rparr>
          in (s\<lparr>games := AList.delete gameId (games s)\<rparr>,
              [Emit (ToRoom gameId)
                 (GameEnded winner (PlayerLeft (p_name disconnectedPlayer)) (getGameState g1))])))"

text \<open>
  The ticker (\<open>setInterval\<close>, every 1000 ms): one pass over \<open>games\<close>. \<open>tickGame\<close> is the
  body of the loop for one game, \<open>clock gameId\<close> the reading of \<open>Date.now()\<close> taken for it.
\<close>

definition tickGame :: "int \<Rightarrow> string \<Rightarrow> game \<Rightarrow> game \<times> effect list" where
  "tickGame now gameId g =
    (if status g = Playing then
       (let timeDiff = now - lastMoveTime g;
            g1 = (if currentPlayer g = White
                  then g\<lparr>whiteTime := max 0 (whiteTime g - timeDiff)\<rparr>
                  else g\<lparr>blackTime := max 0 (blackTime g - timeDiff)\<rparr>);
            g2 = g1\<lparr>lastMoveTime := now\<rparr>
        in if whiteTime g2 \<le> 0 \<or> blackTime g2 \<le> 0 then
             (let winner = (if whiteTime g2 \<le> 0 then BlackWins else WhiteWins);
                  rsn = (if whiteTime g2 \<le> 0 then WhiteTimeExpired else BlackTimeExpired);
                  g3 = g2\<lparr>status := TimeOut\<rparr>
              in (g3, [Emit (ToRoom gameId) (GameEnded winner rsn (getGameState g3))]))
           else (g2, [Emit (ToRoom gameId) (TimeUpdate (whiteTime g2) (blackTime g2))]))
     else (g, []))"

fun tickGames ::
  "(string \<Rightarrow> int) \<Rightarrow> (string \<times> game) list \<Rightarrow> (string \<times> game) list \<times> effect list" where
  "tickGames clock [] = ([], [])"
| "tickGames clock ((gameId, g) # rest) =
    (let (g1, out) = tickGame (clock gameId) gameId g;
         (rest1, outs) = tickGames clock rest
     in ((gameId, g1) # rest1, out @ outs))"

definition timeUpdates :: "server \<Rightarrow> (string \<Rightarrow> int) \<Rightarrow> server \<times> effect list" where
  "timeUpdates s clock =
    (let (gs1, outs) = tickGames clock (games s) in (s\<lparr>games := gs1\<rparr>, outs))"


section \<open>Move requests as they arrive\<close>

text \<open>
  The \<open>makeMove\<close> handler destructures the four coordinates out of the payload and passes
  them on unchecked. A coordinate is a number, modelled as a rational, or \<open>undefined\<close> when
  the field is missing. (Other JSON data, strings for instance, are not modelled.)
\<close>

datatype coord = Num rat | Undefined

datatype jsError = TypeError

text \<open>
  The comparisons of the bounds check: \<open>undefined < 0\<close> and \<open>undefined > 7\<close> are both
  \<open>false\<close> in JavaScript, so a missing coordinate passes the check, and so does a fraction
  between 0 and 7.
\<close>

fun below0 :: "coord \<Rightarrow> bool" where
  "below0 (Num q) = (q < 0)"
| "below0 Undefined = False"

fun above7 :: "coord \<Rightarrow> bool" where
  "above7 (Num q) = (q > 7)"
| "above7 Undefined = False"

text \<open>
  A coordinate used as an array subscript: a whole number that is not negative is that index,
  anything else is a property name that no array of the program has, so reading it gives
  \<open>undefined\<close>.
\<close>

fun indexOf :: "coord \<Rightarrow> nat option" where
  "indexOf (Num q) = (if 0 \<le> q \<and> of_int \<lfloor>q\<rfloor> = q then Some (nat \<lfloor>q\<rfloor>) else None)"
| "indexOf Undefined = None"

text \<open>
  The move object when the destination row is an index and the destination column is not: the
  read \<open>this.board[toRow][toCol]\<close> gives \<open>undefined\<close>, so nothing is captured, the write
  \<open>this.board[toRow][toCol] = piece\<close> lands on a property of the row that is no square, and
  the recorded destination is the pair as it was received.
\<close>

record offBoardMove =
  ob_from :: "int \<times> int"
  ob_to :: "int \<times> coord"
  ob_piece :: piece
  ob_timestamp :: int
  ob_player :: color

text \<open>
  The ways \<open>Game.makeMove\<close> can end: it returns \<open>false\<close> (and has changed nothing), it
  throws, it returns a move, or it returns a move whose destination is off the board. The game in
  the last three is the \<open>Game\<close> object as the call left it. In the last one the source has
  also appended the off-board move to the move log and written the property on the row; the
  \<open>game\<close> record holds moves between squares and squares only, so the outcome carries that
  move by itself, and nothing is stated here about the requests that follow such a move.
\<close>

datatype moveOutcome =
  ReturnedFalse
| Threw jsError game
| ReturnedMove move game
| ReturnedOffBoard offBoardMove game

text \<open>
  \<open>Game.makeMove\<close> on coordinates as they arrive. \<open>this.board[fromRow][fromCol]\<close> throws a
  \<open>TypeError\<close> when \<open>this.board[fromRow]\<close> is \<open>undefined\<close>, and is
  \<open>undefined\<close> itself, hence falsy, when only the column is no index of the row.
  \<open>this.board[toRow][toCol]\<close> is evaluated after the clock and \<open>lastMoveTime\<close> have
  been written.
\<close>

definition makeMoveRaw ::
  "game \<Rightarrow> coord \<Rightarrow> coord \<Rightarrow> coord \<Rightarrow> coord \<Rightarrow> string \<Rightarrow> int \<Rightarrow> moveOutcome" where
  "makeMoveRaw g fromRow fromCol toRow toCol playerId now =
    (let isWhitePlayer = (p_id (white g) = playerId);
         isBlackPlayer = (p_id (black g) = playerId)
     in
     if \<not> isWhitePlayer \<and> \<not> isBlackPlayer then ReturnedFalse
     else if (currentPlayer g = White \<and> \<not> isWhitePlayer) \<or>
             (currentPlayer g = Black \<and> \<not> isBlackPlayer) then ReturnedFalse
     else if below0 fromRow \<or> above7 fromRow \<or> below0 fromCol \<or> above7 fromCol \<or>
             below0 toRow \<or> above7 toRow \<or> below0 toCol \<or> above7 toCol then ReturnedFalse
     else
       (case indexOf fromRow of
          None \<Rightarrow> Threw TypeError g
        | Some i \<Rightarrow>
           if length (board g) \<le> i then Threw TypeError g
           else
            (case indexOf fromCol of
               None \<Rightarrow> ReturnedFalse
             | Some j \<Rightarrow>
                (case cellAt (board g) (int i) (int j) of
                   None \<Rightarrow> ReturnedFalse
                 | Some pc \<Rightarrow>
                    if (currentPlayer g = White \<and> \<not> isWhitePiece pc) \<or>
                       (currentPlayer g = Black \<and> \<not> isBlackPiece pc) then ReturnedFalse
                    else
                      (let timeDiff = now - lastMoveTime g;
                           g1 = (if currentPlayer g = White
                                 then g\<lparr>whiteTime := whiteTime g - timeDiff\<rparr>
                                 else g\<lparr>blackTime := blackTime g - timeDiff\<rparr>);
                           g2 = g1\<lparr>lastMoveTime := now\<rparr>
                       in
                       (case indexOf toRow of
                          None \<Rightarrow> Threw TypeError g2
                        | Some k \<Rightarrow>
                           if length (board g2) \<le> k then Threw TypeError g2
                           else
                            (case indexOf toCol of
                               None \<Rightarrow>
                                 (let g4 = g2\<lparr>board := setCell (board g2) (int i) (int j) None\<rparr>;
                                      ob = \<lparr> ob_from = (int i, int j), ob_to = (int k, toCol),
                                             ob_piece = pc, ob_timestamp = now,
                                             ob_player = currentPlayer g4 \<rparr>;
                                      g6 = g4\<lparr>currentPlayer :=
                                                (if currentPlayer g4 = White then Black else White)\<rparr>
                                  in ReturnedOffBoard ob g6)
                             | Some l \<Rightarrow>
                                 (let capturedPiece = cellAt (board g2) (int k) (int l);
                                      g3 = g2\<lparr>board := setCell (board g2) (int k) (int l) (Some pc)\<rparr>;
                                      g4 = g3\<lparr>board := setCell (board g3) (int i) (int j) None\<rparr>;
                                      mv = \<lparr> m_from = (int i, int j), m_to = (int k, int l),
                                             m_piece = pc, m_captured = capturedPiece,
                                             m_timestamp = now, m_player = currentPlayer g4 \<rparr>;
                                      g5 = g4\<lparr>moves := moves g4 @ [mv]\<rparr>;
                                      g6 = g5\<lparr>currentPlayer :=
                                                (if currentPlayer g5 = White then Black else White)\<rparr>
                                  in ReturnedMove mv g6))))))))"

text \<open>
  The ways the \<open>makeMove\<close> handler can end. \<open>Completed s out\<close>: it returned, the server
  is \<open>s\<close> and it sent \<open>out\<close>. \<open>Uncaught e s\<close>: the exception \<open>e\<close> left the handler
  (the source has no \<open>try\<close>), the server is \<open>s\<close> and the handler had sent nothing.
  \<open>CompletedOffBoard mv s out\<close>: it returned after broadcasting \<open>moveMade\<close> with the
  off-board move \<open>mv\<close> to the room of the game, followed by \<open>out\<close>.
\<close>

datatype handlerOutcome =
  Completed server "effect list"
| Uncaught jsError server
| CompletedOffBoard offBoardMove server "effect list"

definition handleMoveRaw ::
  "server \<Rightarrow> string \<Rightarrow> string \<Rightarrow> coord \<Rightarrow> coord \<Rightarrow> coord \<Rightarrow> coord \<Rightarrow> int \<Rightarrow> handlerOutcome" where
  "handleMoveRaw s socketId gameId fromRow fromCol toRow toCol now =
    (case map_of (games s) gameId of
       None \<Rightarrow> Completed s [Emit (ToSocket socketId) (MoveError GameOrPlayerNotFound)]
     | Some g \<Rightarrow>
        (case players s socketId of
           None \<Rightarrow> Completed s [Emit (ToSocket socketId) (MoveError GameOrPlayerNotFound)]
         | Some pl \<Rightarrow>
            (case makeMoveRaw g fromRow fromCol toRow toCol socketId now of
               ReturnedFalse \<Rightarrow> Completed s [Emit (ToSocket socketId) (MoveError InvalidMove)]
             | Threw e g1 \<Rightarrow> Uncaught e (setGame s gameId g1)
             | ReturnedMove mv g1 \<Rightarrow>
                 if whiteTime g1 \<le> 0 then
                   (let g2 = g1\<lparr>status := TimeOut\<rparr>
                    in Completed (setGame s gameId g2)
                        [Emit (ToRoom gameId) (MoveMade mv (getGameState g1)),
                         Emit (ToRoom gameId) (GameEnded BlackWins WhiteTimeExpired (getGameState g2))])
                 else if blackTime g1 \<le> 0 then
                   (let g2 = g1\<lparr>status := TimeOut\<rparr>
                    in Completed (setGame s gameId g2)
                        [Emit (ToRoom gameId) (MoveMade mv (getGameState g1)),
                         Emit (ToRoom gameId) (GameEnded WhiteWins BlackTimeExpired (getGameState g2))])
                 else
                   Completed (setGame s gameId g1)
                    [Emit (ToRoom gameId) (MoveMade mv (getGameState g1))]
             | ReturnedOffBoard ob g1 \<Rightarrow>
                 if whiteTime g1 \<le> 0 then
                   (let g2 = g1\<lparr>status := TimeOut\<rparr>
                    in CompletedOffBoard ob (setGame s gameId g2)
                        [Emit (ToRoom gameId) (GameEnded BlackWins WhiteTimeExpired (getGameState g2))])
                 else if blackTime g1 \<le> 0 then
                   (let g2 = g1\<lparr>status := TimeOut\<rparr>
                    in CompletedOffBoard ob (setGame s gameId g2)
                        [Emit (ToRoom gameId) (GameEnded WhiteWins BlackTimeExpired (getGameState g2))])
                 else CompletedOffBoard ob (setGame s gameId g1) [])))"


section \<open>Runs of the server\<close>

text \<open>
  Everything that can happen to the server state: the eight socket events, the firing of a
  disconnect timer, and a pass of the ticker. The constructor arguments are the handler's arguments
  in the order of the definitions above. The move requests of a run carry integer coordinates.
\<close>

datatype intent =
  Register string "string option" "int option"
| FindMatch string "int option" bool string int
| MakeMove string string int int int int int
| SpectateGame string string
| Resign string string
| OfferDraw string string
| AcceptDraw string string
| Disconnect string
| TimerFired string string
| Tick "string \<Rightarrow> int"

fun step :: "server \<Rightarrow> intent \<Rightarrow> server \<times> effect list" where
  "step s (Register socketId name rating) = register s socketId name rating"
| "step s (FindMatch socketId prefRange isPlayerWhite gameId now) =
     handleMatchmaking s socketId prefRange isPlayerWhite gameId now"
| "step s (MakeMove socketId gameId fromRow fromCol toRow toCol now) =
     handleMove s socketId gameId fromRow fromCol toRow toCol now"
| "step s (SpectateGame socketId gameId) = handleSpectate s socketId gameId"
| "step s (Resign socketId gameId) = handleResign s socketId gameId"
| "step s (OfferDraw socketId gameId) = handleDrawOffer s socketId gameId"
| "step s (AcceptDraw socketId gameId) = handleDrawAccept s socketId gameId"
| "step s (Disconnect socketId) = handleDisconnect s socketId"
| "step s (TimerFired gameId socketId) = disconnectTimeout s gameId socketId"
| "step s (Tick clock) = timeUpdates s clock"

fun run :: "server \<Rightarrow> intent list \<Rightarrow> server \<times> effect list" where
  "run s [] = (s, [])"
| "run s (i # rest) =
    (let (s1, out) = step s i; (s2, outs) = run s1 rest in (s2, out @ outs))"

text \<open>
  \<open>uuidv4()\<close> never returns the id of a game that exists or existed. \<open>createsGame gameId i\<close>
  says that the step \<open>i\<close> is a \<open>findMatch\<close> that brings \<open>gameId\<close> as its new id; the
  statements about the later life of a game \<open>gameId\<close> are about steps that do not.
\<close>

fun createsGame :: "string \<Rightarrow> intent \<Rightarrow> bool" where
  "createsGame gameId (FindMatch socketId prefRange isPlayerWhite newId now) = (newId = gameId)"
| "createsGame gameId _ = False"

definition emptyServer :: server where
  "emptyServer = \<lparr> games = [], waitingPlayers = [], players = Map.empty \<rparr>"

section \<open>Notions used in the statements\<close>

definition opposite :: "color \<Rightarrow> color" where
  "opposite c = (if c = White then Black else White)"

text \<open>The tests that \<open>Game.makeMove\<close> makes before it changes anything, as one predicate.\<close>

definition moveValid :: "game \<Rightarrow> int \<Rightarrow> int \<Rightarrow> int \<Rightarrow> int \<Rightarrow> string \<Rightarrow> bool" where
  "moveValid g fromRow fromCol toRow toCol playerId =
    (((currentPlayer g = White \<and> p_id (white g) = playerId) \<or>
      (currentPlayer g = Black \<and> p_id (black g) = playerId)) \<and>
     0 \<le> fromRow \<and> fromRow \<le> 7 \<and> 0 \<le> fromCol \<and> fromCol \<le> 7 \<and>
     0 \<le> toRow \<and> toRow \<le> 7 \<and> 0 \<le> toCol \<and> toCol \<le> 7 \<and>
     (case cellAt (board g) fromRow fromCol of
        None \<Rightarrow> False
      | Some pc \<Rightarrow> (if currentPlayer g = White then isWhitePiece pc else isBlackPiece pc)))"

text \<open>
  A move request is rejected by the \<open>makeMove\<close> handler when the game or the caller is not found,
  or when \<open>Game.makeMove\<close> returns \<open>false\<close>.
\<close>

definition moveRejected ::
  "server \<Rightarrow> string \<Rightarrow> string \<Rightarrow> int \<Rightarrow> int \<Rightarrow> int \<Rightarrow> int \<Rightarrow> int \<Rightarrow> bool" where
  "moveRejected s socketId gameId fromRow fromCol toRow toCol now =
    (case map_of (games s) gameId of
       None \<Rightarrow> True
     | Some g \<Rightarrow>
         (case players s socketId of
            None \<Rightarrow> True
          | Some pl \<Rightarrow> fst (makeMove g fromRow fromCol toRow toCol socketId now) = None))"

text \<open>
  A sequence of calls of \<open>Game.makeMove\<close> on one game (each request: the four coordinates, the
  caller and the clock reading); the second component counts the calls that were accepted.
\<close>

fun playAll :: "game \<Rightarrow> (int \<times> int \<times> int \<times> int \<times> string \<times> int) list \<Rightarrow> game \<times> nat" where
  "playAll g [] = (g, 0)"
| "playAll g ((fromRow, fromCol, toRow, toCol, playerId, now) # rest) =
    (case makeMove g fromRow fromCol toRow toCol playerId now of
       (None, g1) \<Rightarrow> playAll g1 rest
     | (Some mv, g1) \<Rightarrow> (let (g2, n) = playAll g1 rest in (g2, Suc n)))"

text \<open>The clock of a side, the result when that side loses, and the reason when its time ran out.\<close>

fun timeOf :: "color \<Rightarrow> game \<Rightarrow> int" where
  "timeOf White g = whiteTime g"
| "timeOf Black g = blackTime g"



text \<open>Every game that is playing has time left on both clocks.\<close>

definition clocksRunning :: "server \<Rightarrow> bool" where
  "clocksRunning s =
    (\<forall>gameId g. map_of (games s) gameId = Some g \<longrightarrow> status g = Playing \<longrightarrow>
       0 < whiteTime g \<and> 0 < blackTime g)"

text \<open>A game id whose game has ended, or that has no game.\<close>

definition terminalOrGone :: "server \<Rightarrow> string \<Rightarrow> bool" where
  "terminalOrGone s gameId =
    (case map_of (games s) gameId of None \<Rightarrow> True | Some g \<Rightarrow> status g \<noteq> Playing)"

text \<open>
  A step is an accepted move on the game \<open>gameId\<close> when it is a \<open>makeMove\<close> event for that
  game that the handler does not reject; \<open>acceptedCount\<close> counts them along a run.
\<close>

fun acceptedMoveOn :: "server \<Rightarrow> string \<Rightarrow> intent \<Rightarrow> bool" where
  "acceptedMoveOn s gameId (MakeMove socketId gameId' fromRow fromCol toRow toCol now) =
     (gameId' = gameId \<and> \<not> moveRejected s socketId gameId fromRow fromCol toRow toCol now)"
| "acceptedMoveOn s gameId _ = False"

fun acceptedCount :: "server \<Rightarrow> string \<Rightarrow> intent list \<Rightarrow> nat" where
  "acceptedCount s gameId [] = 0"
| "acceptedCount s gameId (i # rest) =
     (if acceptedMoveOn s gameId i then 1 else 0) + acceptedCount (fst (step s i)) gameId rest"

text \<open>
  The invariants of the connection directory and of the matchmaking queue: a player object is
  filed under its own socket id, and no two tickets of the queue carry the same socket id.
\<close>

definition directoryOk :: "server \<Rightarrow> bool" where
  "directoryOk s = (\<forall>socketId pl. players s socketId = Some pl \<longrightarrow> p_id pl = socketId)"

definition queueOk :: "server \<Rightarrow> bool" where
  "queueOk s = distinct (map p_id (waitingPlayers s))"

text \<open>
  The events that a list of effects sends to the room of the game \<open>gameId\<close> are the ones that
  \<open>filter (forRoom gameId)\<close> keeps.
\<close>

fun forRoom :: "string \<Rightarrow> effect \<Rightarrow> bool" where
  "forRoom gameId (Emit (ToRoom k) e) = (k = gameId)"
| "forRoom gameId _ = False"

text \<open>Every registered game has a board of eight rows of eight squares.\<close>

definition boardsOk :: "server \<Rightarrow> bool" where
  "boardsOk s = (\<forall>gameId g. map_of (games s) gameId = Some g \<longrightarrow> wf_board (board g))"

section \<open>Example data\<close>

definition alice :: player where
  "alice = \<lparr> p_id = ''w1'', p_name = ''Alice'', p_rating = 1500 \<rparr>"

definition bob :: player where
  "bob = \<lparr> p_id = ''b1'', p_name = ''Bob'', p_rating = 1650 \<rparr>"

definition carol :: player where
  "carol = \<lparr> p_id = ''c1'', p_name = ''Carol'', p_rating = 1400 \<rparr>"

definition exGame :: game where
  "exGame = newGame ''g1'' alice bob 0"

text \<open>Alice (white) plays Bob (black) in game \<open>g1\<close>; Carol is registered and plays in no game.\<close>

definition exServer :: server where
  "exServer =
    \<lparr> games = [(''g1'', exGame)], waitingPlayers = [],
      players = [''w1'' \<mapsto> alice, ''b1'' \<mapsto> bob, ''c1'' \<mapsto> carol] \<rparr>"

text \<open>The example server after Bob has resigned.\<close>

definition exResigned :: server where
  "exResigned = fst (handleResign exServer ''b1'' ''g1'')"

text \<open>After Bob's resignation: Alice moves a pawn, the ticker passes, Carol accepts a draw.\<close>

definition exOps :: "intent list" where
  "exOps = [MakeMove ''w1'' ''g1'' 6 4 4 4 1000, Tick (\<lambda>k. 2000), AcceptDraw ''c1'' ''g1'']"

text \<open>
  Alice's socket disconnects while \<open>g1\<close> is being played (the timer is armed); then Bob
  resigns, before the timer fires.
\<close>

definition exDisconnected :: server where
  "exDisconnected = fst (handleDisconnect exServer ''w1'')"

definition exRaced :: server where
  "exRaced = fst (handleResign exDisconnected ''b1'' ''g1'')"


text \<open>
  Three requests on the new game: White's pawn move, a second move by White (rejected, it is
  Black's turn), Black's pawn move. And a run of the example server with the same two accepted
  moves among other events.
\<close>

definition exRequests :: "(int \<times> int \<times> int \<times> int \<times> string \<times> int) list" where
  "exRequests = [(6, 4, 4, 4, ''w1'', 1000), (6, 3, 4, 3, ''w1'', 2000), (1, 4, 3, 4, ''b1'', 3000)]"

definition exPlay :: "intent list" where
  "exPlay =
    [MakeMove ''w1'' ''g1'' 6 4 4 4 1000, Tick (\<lambda>k. 1500), MakeMove ''w1'' ''g1'' 6 3 4 3 2000,
     MakeMove ''b1'' ''g1'' 1 4 3 4 3000, Resign ''w1'' ''g1'']"

text \<open>
  A lobby with three tickets: an old ticket of Alice (rating 1500), Carol (1400) and Dave (1500),
  in this order.
\<close>

definition dave :: player where
  "dave = \<lparr> p_id = ''d1'', p_name = ''Dave'', p_rating = 1500 \<rparr>"

definition exQueue :: server where
  "exQueue =
    \<lparr> games = [], waitingPlayers = [alice, carol, dave],
      players = [''w1'' \<mapsto> alice, ''b1'' \<mapsto> bob, ''c1'' \<mapsto> carol, ''d1'' \<mapsto> dave] \<rparr>"

section \<open>Basic facts\<close>

lemmas ex_defs = alice_def bob_def carol_def exGame_def exServer_def newGame_def getInitialBoard_def

lemmas board_defs = cellAt_def setCell_def isWhitePiece_def isBlackPiece_def

lemma color_cases: "c = White \<or> c = Black"
  by (cases c) auto

lemma map_of_update_same: "map_of al k = Some v \<Longrightarrow> AList.update k v al = al"
  by (induction al) (auto split: if_splits)

lemma setGame_same: "map_of (games s) k = Some g \<Longrightarrow> setGame s k g = s"
  by (simp add: setGame_def map_of_update_same)

lemma games_setGame:
  "map_of (games (setGame s k g)) k' = (if k' = k then Some g else map_of (games s) k')"
  by (simp add: setGame_def update_conv')

lemma setGame_others [simp]:
  "waitingPlayers (setGame s k g) = waitingPlayers s" "players (setGame s k g) = players s"
  by (simp_all add: setGame_def)

lemma makeMove_accepted_iff:
  "(fst (makeMove g fr fc tr tc pid now) \<noteq> None) = moveValid g fr fc tr tc pid"
  using color_cases[of "currentPlayer g"]
  by (auto simp: makeMove_def moveValid_def Let_def split: option.splits)

lemma makeMove_rejected_same:
  "fst (makeMove g fr fc tr tc pid now) = None \<Longrightarrow> snd (makeMove g fr fc tr tc pid now) = g"
  by (auto simp: makeMove_def Let_def split: if_splits option.splits)

lemma makeMove_accepted_fields:
  assumes "makeMove g fr fc tr tc pid now = (Some mv, g1)"
  shows "currentPlayer g1 = opposite (currentPlayer g)"
    and "moves g1 = moves g @ [mv]"
    and "whiteTime g1 =
           (if currentPlayer g = White then whiteTime g - (now - lastMoveTime g) else whiteTime g)"
    and "blackTime g1 =
           (if currentPlayer g = White then blackTime g else blackTime g - (now - lastMoveTime g))"
    and "lastMoveTime g1 = now"
    and "status g1 = status g"
    and "white g1 = white g" and "black g1 = black g" and "g_id g1 = g_id g"
    and "spectators g1 = spectators g"
    and "m_player mv = currentPlayer g" and "m_timestamp mv = now"
    and "m_from mv = (fr, fc)" and "m_to mv = (tr, tc)"
    and "cellAt (board g) fr fc = Some (m_piece mv)"
    and "m_captured mv = cellAt (board g) tr tc"
    and "board g1 = setCell (setCell (board g) tr tc (Some (m_piece mv))) fr fc None"
  using assms
  by (auto simp: makeMove_def Let_def opposite_def split: if_splits option.splits)

lemma makeMove_status_blind:
  "makeMove (g\<lparr>status := st\<rparr>) fr fc tr tc pid now =
     (fst (makeMove g fr fc tr tc pid now), (snd (makeMove g fr fc tr tc pid now))\<lparr>status := st\<rparr>)"
  by (auto simp: makeMove_def Let_def split: option.splits)

text \<open>
  The board keeps its shape: it starts as eight rows of eight squares and \<open>makeMove\<close> leaves
  it so. On such a board the squares that pass the bounds check are read and written in place.
\<close>

lemma wf_getInitialBoard: "wf_board getInitialBoard"
  by (simp add: wf_board_def getInitialBoard_def)

lemma setCell_wf: "wf_board b \<Longrightarrow> wf_board (setCell b r c v)"
  by (auto simp: wf_board_def setCell_def list_all_iff dest!: set_update_subset_insert[THEN subsetD])

lemma makeMove_wf:
  "wf_board (board g) \<Longrightarrow> wf_board (board (snd (makeMove g fr fc tr tc pid now)))"
  by (auto simp: makeMove_def Let_def setCell_wf split: option.splits)

lemma cellAt_in_range:
  "wf_board b \<Longrightarrow> 0 \<le> r \<Longrightarrow> r \<le> 7 \<Longrightarrow> 0 \<le> c \<Longrightarrow> c \<le> 7 \<Longrightarrow>
   cellAt b r c = b ! nat r ! nat c"
  by (auto simp: wf_board_def cellAt_def list_all_length)

lemma setCell_in_range:
  "wf_board b \<Longrightarrow> 0 \<le> r \<Longrightarrow> r \<le> 7 \<Longrightarrow> 0 \<le> c \<Longrightarrow> c \<le> 7 \<Longrightarrow>
   setCell b r c v = b[nat r := (b ! nat r)[nat c := v]]"
  by (auto simp: wf_board_def setCell_def list_all_length)

lemma exResigned_game:
  "map_of (games exResigned) ''g1'' = Some (exGame\<lparr>status := Resigned\<rparr>)"
  by (simp add: exResigned_def handleResign_def exServer_def Let_def games_setGame exGame_def
      newGame_def alice_def bob_def)

lemma exResigned_players: "players exResigned = players exServer"
  by (simp add: exResigned_def handleResign_def exServer_def Let_def exGame_def newGame_def
      alice_def bob_def)

lemma handleMove_accepted_broadcast:
  assumes "\<not> moveRejected s socketId gameId fr fc tr tc now"
  shows "\<exists>g mv g1. map_of (games s) gameId = Some g
           \<and> makeMove g fr fc tr tc socketId now = (Some mv, g1)
           \<and> hd (snd (handleMove s socketId gameId fr fc tr tc now)) =
               Emit (ToRoom gameId) (MoveMade mv (getGameState g1))"
  using assms
  by (auto simp: moveRejected_def handleMove_def Let_def split: option.splits prod.splits)

section \<open>What one step does to one game\<close>

text \<open>
  The loops over \<open>games\<close> act on each entry by itself, and every other handler writes at most
  the one game it was called for. So a game that is registered after a step was registered before
  it (unless the step created it), and it was changed in one of a few ways.
\<close>

lemma map_of_tickGames:
  "map_of (fst (tickGames clock gs)) gid =
     map_option (\<lambda>g. fst (tickGame (clock gid) gid g)) (map_of gs gid)"
  by (induction gs) (auto split: prod.splits)

lemma map_of_disconnectGames:
  "map_of (fst (disconnectGames sid pl gs)) gid =
     map_option (\<lambda>g. g\<lparr>spectators := spectators g - {sid}\<rparr>) (map_of gs gid)"
  by (induction gs) (auto split: prod.splits simp: Let_def)

lemma tickGame_not_playing: "status g \<noteq> Playing \<Longrightarrow> tickGame now gid g = (g, [])"
  by (simp add: tickGame_def)

lemma handleMatchmaking_games:
  "gid \<noteq> newId \<Longrightarrow>
   map_of (games (fst (handleMatchmaking s sid r c newId now))) gid = map_of (games s) gid"
  by (auto simp: handleMatchmaking_def Let_def games_setGame split: option.splits)

lemma makeMove_rejected_eq:
  "makeMove g fr fc tr tc pid now = (None, g1) \<Longrightarrow> g1 = g"
  using makeMove_rejected_same[of g fr fc tr tc pid now] by simp

lemma step_game_cases:
  assumes "\<not> createsGame gid i"
    and "map_of (games (fst (step s i))) gid = Some g'"
  shows "\<exists>g. map_of (games s) gid = Some g \<and>
           (g' = g
            \<or> (\<exists>S. g' = g\<lparr>spectators := S\<rparr>)
            \<or> g' = g\<lparr>status := Resigned\<rparr>
            \<or> g' = g\<lparr>status := Draw\<rparr>
            \<or> (\<exists>now. g' = fst (tickGame now gid g))
            \<or> (\<exists>sid fr fc tr tc now mv g1.
                  i = MakeMove sid gid fr fc tr tc now \<and> players s sid \<noteq> None
                  \<and> makeMove g fr fc tr tc sid now = (Some mv, g1)
                  \<and> ((g' = g1 \<and> 0 < whiteTime g1 \<and> 0 < blackTime g1)
                       \<or> g' = g1\<lparr>status := TimeOut\<rparr>)))"
proof (cases i)
  case (Register sid name rating)
  with assms show ?thesis by (simp add: register_def Let_def)
next
  case (FindMatch sid r c newId now)
  with assms show ?thesis by (simp add: handleMatchmaking_games)
next
  case (MakeMove sid gid' fr fc tr tc now)
  show ?thesis
  proof (cases "gid' = gid")
    case True
    with assms MakeMove show ?thesis
      by (auto simp: handleMove_def games_setGame Let_def split: option.splits prod.splits if_splits
          dest: makeMove_rejected_eq)
  next
    case False
    with assms MakeMove show ?thesis
      by (auto simp: handleMove_def games_setGame Let_def split: option.splits prod.splits if_splits)
  qed
next
  case (SpectateGame sid gid')
  with assms show ?thesis
    by (auto simp: handleSpectate_def games_setGame Let_def split: option.splits if_splits)
next
  case (Resign sid gid')
  with assms show ?thesis
    by (auto simp: handleResign_def games_setGame Let_def split: option.splits if_splits)
next
  case (OfferDraw sid gid')
  with assms show ?thesis
    by (auto simp: handleDrawOffer_def Let_def split: option.splits)
next
  case (AcceptDraw sid gid')
  with assms show ?thesis
    by (auto simp: handleDrawAccept_def games_setGame Let_def split: option.splits if_splits)
next
  case (Disconnect sid)
  have "map_of (games (fst (step s i))) gid =
          map_option (\<lambda>g. g\<lparr>spectators := spectators g - {sid}\<rparr>) (map_of (games s) gid)"
    by (simp add: Disconnect handleDisconnect_def Let_def case_prod_beta map_of_disconnectGames)
  with assms(2) obtain g where "map_of (games s) gid = Some g"
    and "g' = g\<lparr>spectators := spectators g - {sid}\<rparr>"
    by auto
  then show ?thesis by blast
next
  case (TimerFired gid' sid)
  with assms show ?thesis
    by (auto simp: disconnectTimeout_def Let_def delete_conv' split: option.splits if_splits)
next
  case (Tick clock)
  have "map_of (games (fst (step s i))) gid =
          map_option (\<lambda>g. fst (tickGame (clock gid) gid g)) (map_of (games s) gid)"
    by (simp add: Tick timeUpdates_def Let_def case_prod_beta map_of_tickGames)
  with assms(2) obtain g where "map_of (games s) gid = Some g"
    and "g' = fst (tickGame (clock gid) gid g)"
    by auto
  then show ?thesis by blast
qed

section \<open>Move validation\<close>

text \<open>
  C2 (the part the code does not do). The spec lets a move pass only if the destination square
  is not occupied by a piece of the mover's own side. \<open>Game.makeMove\<close> never looks at the
  destination before it overwrites it: in the opening position White's rook on (7,0) is moved onto
  White's own pawn on (6,0); the call returns the move record with that pawn as the captured piece,
  and afterwards the rook stands on (6,0) and (7,0) is empty.
\<close>

theorem makeMove_captures_own_piece:
  "fst (makeMove exGame 7 0 6 0 ''w1'' 1000) =
     Some \<lparr> m_from = (7, 0), m_to = (6, 0), m_piece = WRook, m_captured = Some WPawn,
            m_timestamp = 1000, m_player = White \<rparr>
   \<and> cellAt (board exGame) 6 0 = Some WPawn
   \<and> isWhitePiece WPawn
   \<and> currentPlayer exGame = White
   \<and> cellAt (board (snd (makeMove exGame 7 0 6 0 ''w1'' 1000))) 6 0 = Some WRook
   \<and> cellAt (board (snd (makeMove exGame 7 0 6 0 ''w1'' 1000))) 7 0 = None"
  by (simp add: ex_defs makeMove_def board_defs Let_def)

section \<open>Rejected moves\<close>

text \<open>
  A move request with integer coordinates that is rejected (unknown game id, unregistered caller,
  or \<open>Game.makeMove\<close> returns \<open>false\<close>) leaves the whole server state as it was, so no
  session's board, move log, clocks, side to move or status changes, and all the handler sends is
  one \<open>moveError\<close> event to the calling socket.
\<close>

lemma rejected_move_no_mutation:
  assumes "moveRejected s socketId gameId fr fc tr tc now"
  shows "fst (handleMove s socketId gameId fr fc tr tc now) = s
         \<and> (snd (handleMove s socketId gameId fr fc tr tc now) =
               [Emit (ToSocket socketId) (MoveError GameOrPlayerNotFound)]
            \<or> snd (handleMove s socketId gameId fr fc tr tc now) =
               [Emit (ToSocket socketId) (MoveError InvalidMove)])"
  using assms
  by (auto simp: moveRejected_def handleMove_def setGame_same dest: makeMove_rejected_same
      split: option.splits prod.splits)

lemma ex_unknown_game_rejected: "moveRejected exServer ''w1'' ''nope'' 6 4 4 4 1000"
  by (simp add: moveRejected_def exServer_def)

lemma ex_wrong_turn_rejected: "moveRejected exServer ''b1'' ''g1'' 1 4 3 4 1000"
  by (simp add: moveRejected_def makeMove_def ex_defs Let_def)

lemma rejected_move_no_mutation_example:
  "moveRejected exServer ''w1'' ''nope'' 6 4 4 4 1000
   \<and> handleMove exServer ''w1'' ''nope'' 6 4 4 4 1000 =
       (exServer, [Emit (ToSocket ''w1'') (MoveError GameOrPlayerNotFound)])
   \<and> moveRejected exServer ''b1'' ''g1'' 1 4 3 4 1000
   \<and> fst (handleMove exServer ''b1'' ''g1'' 1 4 3 4 1000) = exServer"
  using rejected_move_no_mutation [OF ex_unknown_game_rejected]
    rejected_move_no_mutation [OF ex_wrong_turn_rejected]
    ex_unknown_game_rejected ex_wrong_turn_rejected
  by (simp add: handleMove_def exServer_def)

section \<open>Accepting a draw\<close>

text \<open>
  C10. \<open>acceptDraw\<close> looks only the game id up. Whoever sends it (the handler never reads the
  caller's socket id, so a spectator, a stranger or an unregistered socket will do) and whatever
  the status of the game is, the game's status becomes \<open>draw\<close> and one \<open>gameEnded\<close> event with
  result \<open>draw\<close> goes to the game's room.
\<close>

theorem handleDrawAccept_unchecked:
  assumes "map_of (games s) gameId = Some g"
  shows "handleDrawAccept s socketId gameId =
           (setGame s gameId (g\<lparr>status := Draw\<rparr>),
            [Emit (ToRoom gameId)
               (GameEnded DrawResult DrawAgreed (getGameState (g\<lparr>status := Draw\<rparr>)))])
         \<and> map_of (games (fst (handleDrawAccept s socketId gameId))) gameId =
             Some (g\<lparr>status := Draw\<rparr>)"
  using assms by (simp add: handleDrawAccept_def Let_def games_setGame)

theorem handleDrawAccept_unchecked_witness:
  "map_of (games exResigned) ''g1'' = Some (exGame\<lparr>status := Resigned\<rparr>)
   \<and> players exResigned ''zz'' = None
   \<and> map_of (games (fst (handleDrawAccept exResigned ''zz'' ''g1''))) ''g1'' =
       Some (exGame\<lparr>status := Draw\<rparr>)
   \<and> snd (handleDrawAccept exResigned ''zz'' ''g1'') =
        [Emit (ToRoom ''g1'')
           (GameEnded DrawResult DrawAgreed (getGameState (exGame\<lparr>status := Draw\<rparr>)))]"
  using handleDrawAccept_unchecked [OF exResigned_game, of "''zz''"]
  by (simp add: exResigned_game exResigned_players exServer_def games_setGame)

section \<open>Clocks\<close>

text \<open>
  What both checkpoints do: the clock of the side to move is debited by the time since the last
  checkpoint (the ticker floors the result at zero, \<open>makeMove\<close> does not), the other
  clock is left alone, and the checkpoint time becomes the current reading.
\<close>

lemma makeMove_debit:
  assumes "makeMove g fr fc tr tc pid now = (Some mv, g1)"
  shows "timeOf (currentPlayer g) g1 = timeOf (currentPlayer g) g - (now - lastMoveTime g)
         \<and> timeOf (opposite (currentPlayer g)) g1 = timeOf (opposite (currentPlayer g)) g
         \<and> lastMoveTime g1 = now"
  using makeMove_accepted_fields(3,4,5)[OF assms] color_cases[of "currentPlayer g"]
  by (auto simp: opposite_def)

lemma tickGame_debit:
  assumes "status g = Playing"
  shows "timeOf (currentPlayer g) (fst (tickGame now gid g)) =
           max 0 (timeOf (currentPlayer g) g - (now - lastMoveTime g))
         \<and> timeOf (opposite (currentPlayer g)) (fst (tickGame now gid g)) =
             timeOf (opposite (currentPlayer g)) g
         \<and> lastMoveTime (fst (tickGame now gid g)) = now"
  using assms color_cases[of "currentPlayer g"]
  by (auto simp: tickGame_def Let_def opposite_def)

text \<open>
  C5 (the part the code does not do). The ticker floors the running clock at zero
  (\<open>Math.max(0, ...)\<close>); \<open>Game.makeMove\<close> subtracts the elapsed time without a floor. A ticker
  pass at 899500 ms leaves White 500 ms; White's move e2-e4 arrives 800 ms later, is accepted, and
  White's remaining time is -300 ms.
\<close>

theorem makeMove_clock_negative:
  "tickGame 899500 ''g1'' exGame =
     (exGame\<lparr>whiteTime := 500, lastMoveTime := 899500\<rparr>,
      [Emit (ToRoom ''g1'') (TimeUpdate 500 900000)])
   \<and> fst (makeMove (exGame\<lparr>whiteTime := 500, lastMoveTime := 899500\<rparr>) 6 4 4 4 ''w1'' 900300)
       \<noteq> None
   \<and> whiteTime
        (snd (makeMove (exGame\<lparr>whiteTime := 500, lastMoveTime := 899500\<rparr>) 6 4 4 4 ''w1'' 900300))
       = - 300"
  by (simp add: ex_defs tickGame_def makeMove_def board_defs Let_def)

section \<open>The ticker pass\<close>

text \<open>
  A pass of the ticker runs the loop body on every entry of \<open>games\<close>, in order, and sends what
  the bodies send. The keys of \<open>games\<close> are pairwise different, as the keys of a \<open>Map\<close>
  are, in every state that the server reaches; then what a pass sends to the room of a game is what
  the loop body sends for that game.
\<close>

lemma snd_tickGames:
  "snd (tickGames clock gs) = concat (map (\<lambda>(k, g). snd (tickGame (clock k) k g)) gs)"
  by (induction gs) (auto simp: case_prod_beta)

lemma keys_tickGames: "map fst (fst (tickGames clock gs)) = map fst gs"
  by (induction gs) (auto simp: case_prod_beta)

lemma keys_disconnectGames: "map fst (fst (disconnectGames sid pl gs)) = map fst gs"
  by (induction gs) (auto simp: case_prod_beta Let_def)

lemma tickGame_room:
  "filter (forRoom k) (snd (tickGame now k' g)) = (if k = k' then snd (tickGame now k' g) else [])"
  by (simp add: tickGame_def Let_def)

lemma tickGames_other_rooms:
  "k \<notin> fst ` set gs \<Longrightarrow> filter (forRoom k) (snd (tickGames clock gs)) = []"
  by (induction gs) (auto simp: case_prod_beta tickGame_room)

lemma tickGames_room:
  assumes "distinct (map fst gs)"
  shows "filter (forRoom k) (snd (tickGames clock gs)) =
           (case map_of gs k of None \<Rightarrow> [] | Some g \<Rightarrow> snd (tickGame (clock k) k g))"
  using assms
proof (induction gs)
  case Nil then show ?case by simp
next
  case (Cons e rest)
  obtain k' g' where e: "e = (k', g')" by (cases e)
  show ?case
  proof (cases "k = k'")
    case True
    with Cons.prems e have "k \<notin> fst ` set rest" by auto
    then have "filter (forRoom k) (snd (tickGames clock rest)) = []"
      by (rule tickGames_other_rooms)
    with True e show ?thesis by (simp add: case_prod_beta tickGame_room)
  next
    case False
    with Cons e show ?thesis by (simp add: case_prod_beta tickGame_room)
  qed
qed

lemma timeUpdates_room:
  assumes "distinct (map fst (games s))"
  shows "filter (forRoom k) (snd (timeUpdates s clock)) =
           (case map_of (games s) k of None \<Rightarrow> [] | Some g \<Rightarrow> snd (tickGame (clock k) k g))"
  using tickGames_room[OF assms] by (simp add: timeUpdates_def case_prod_beta)

lemma timeUpdates_sent:
  "snd (timeUpdates s clock) =
     concat (map (\<lambda>(k, g). snd (tickGame (clock k) k g)) (games s))"
  by (simp add: timeUpdates_def case_prod_beta snd_tickGames)

lemma timeUpdates_game:
  "map_of (games (fst (timeUpdates s clock))) k =
     map_option (\<lambda>g. fst (tickGame (clock k) k g)) (map_of (games s) k)"
  by (simp add: timeUpdates_def case_prod_beta map_of_tickGames)

lemma step_distinct_games:
  assumes "distinct (map fst (games s))"
  shows "distinct (map fst (games (fst (step s i))))"
proof (cases i)
  case (FindMatch sid r c gid now)
  with assms show ?thesis
    by (auto simp: handleMatchmaking_def Let_def setGame_def distinct_update
        split: option.splits)
next
  case (MakeMove sid gid fr fc tr tc now)
  with assms show ?thesis
    by (auto simp: handleMove_def Let_def setGame_def distinct_update
        split: option.splits prod.splits)
next
  case (Disconnect sid)
  with assms show ?thesis
    by (simp add: handleDisconnect_def Let_def case_prod_beta keys_disconnectGames)
next
  case (Tick clock)
  with assms show ?thesis
    by (simp add: timeUpdates_def case_prod_beta keys_tickGames)
qed (insert assms, auto simp: register_def handleSpectate_def handleResign_def handleDrawOffer_def
      handleDrawAccept_def disconnectTimeout_def Let_def setGame_def distinct_update distinct_delete
      split: option.splits if_splits)

lemma run_distinct_games:
  "distinct (map fst (games s)) \<Longrightarrow> distinct (map fst (games (fst (run s ops))))"
proof (induction ops arbitrary: s)
  case Nil then show ?case by simp
next
  case (Cons i rest)
  from Cons.prems have "distinct (map fst (games (fst (step s i))))" by (rule step_distinct_games)
  from Cons.IH[OF this] show ?case by (simp add: case_prod_beta Let_def)
qed

lemma reachable_distinct_games: "distinct (map fst (games (fst (run emptyServer ops))))"
  by (rule run_distinct_games) (simp add: emptyServer_def)

lemma ended_game_ticker_silent:
  assumes "distinct (map fst (games s))" and "terminalOrGone s k"
  shows "map_of (games (fst (timeUpdates s clock))) k = map_of (games s) k
       \<and> filter (forRoom k) (snd (timeUpdates s clock)) = []"
  using assms(2) timeUpdates_room[OF assms(1), of k clock]
  by (auto simp: timeUpdates_game terminalOrGone_def tickGame_not_playing split: option.splits)

section \<open>Ended games\<close>

lemma step_status_terminal:
  assumes "\<not> createsGame gid i"
    and "map_of (games s) gid = Some g" and "status g \<noteq> Playing"
    and "map_of (games (fst (step s i))) gid = Some g'"
  shows "status g' \<noteq> Playing"
proof -
  from step_game_cases[OF assms(1) assms(4)] assms(2)
  have "g' = g
            \<or> (\<exists>S. g' = g\<lparr>spectators := S\<rparr>)
            \<or> g' = g\<lparr>status := Resigned\<rparr>
            \<or> g' = g\<lparr>status := Draw\<rparr>
            \<or> (\<exists>now. g' = fst (tickGame now gid g))
            \<or> (\<exists>sid fr fc tr tc now mv g1.
                  i = MakeMove sid gid fr fc tr tc now \<and> players s sid \<noteq> None
                  \<and> makeMove g fr fc tr tc sid now = (Some mv, g1)
                  \<and> ((g' = g1 \<and> 0 < whiteTime g1 \<and> 0 < blackTime g1)
                       \<or> g' = g1\<lparr>status := TimeOut\<rparr>))"
    by auto
  then show ?thesis
    using assms(3) by (auto simp: tickGame_not_playing dest: makeMove_accepted_fields(6))
qed

lemma step_unregistered:
  assumes "\<not> createsGame gid i" and "map_of (games s) gid = None"
  shows "map_of (games (fst (step s i))) gid = None"
proof (cases "map_of (games (fst (step s i))) gid")
  case None then show ?thesis .
next
  case (Some g')
  from step_game_cases[OF assms(1) Some] assms(2) show ?thesis by auto
qed

lemma step_terminalOrGone:
  assumes "\<not> createsGame gid i" and "terminalOrGone s gid"
  shows "terminalOrGone (fst (step s i)) gid"
proof (cases "map_of (games s) gid")
  case None
  with step_unregistered[OF assms(1)] show ?thesis by (simp add: terminalOrGone_def)
next
  case (Some g)
  with assms(2) have "status g \<noteq> Playing" by (simp add: terminalOrGone_def)
  with step_status_terminal[OF assms(1) Some] show ?thesis
    by (auto simp: terminalOrGone_def split: option.splits)
qed

lemma run_terminalOrGone:
  "list_all (\<lambda>i. \<not> createsGame gid i) ops \<Longrightarrow> terminalOrGone s gid \<Longrightarrow> terminalOrGone (fst (run s ops)) gid"
proof (induction ops arbitrary: s)
  case Nil then show ?case by simp
next
  case (Cons i rest)
  from Cons.prems have "terminalOrGone (fst (step s i)) gid"
    by (simp add: step_terminalOrGone)
  with Cons.IH[of "fst (step s i)"] Cons.prems show ?case
    by (simp add: case_prod_beta Let_def)
qed

text \<open>
  C1, as the code has it. Once the status of a game is not \<open>playing\<close>, no step of the server
  (move, resignation, draw, disconnect, timer, ticker, spectating) makes it \<open>playing\<close> again,
  and the ticker leaves the game exactly as it is: no clock is debited and nothing is sent. This
  holds for the loop body and for a whole pass, at once or after any further steps: the pass
  leaves the entry of the game as it finds it and sends nothing to the room of the game. But
  \<open>Game.makeMove\<close> never reads the status: on an ended game it returns what it returns on the
  same game with status \<open>playing\<close>, and makes the same changes to board, move log, clock and
  side to move.
\<close>

theorem terminal_status_stays_terminal:
  assumes "map_of (games s) gameId = Some g" and "status g \<noteq> Playing"
    and "list_all (\<lambda>i. \<not> createsGame gameId i) ops"
  shows "(\<forall>g'. map_of (games (fst (run s ops))) gameId = Some g' \<longrightarrow> status g' \<noteq> Playing)
       \<and> map_of (games (fst (timeUpdates s clock))) gameId = Some g
       \<and> tickGame now gameId g = (g, [])
       \<and> snd (timeUpdates s clock) =
           concat (map (\<lambda>(k, g). snd (tickGame (clock k) k g)) (games s))
       \<and> (distinct (map fst (games s)) \<longrightarrow>
            (case timeUpdates (fst (run s ops)) clock of (s1, out) \<Rightarrow>
               map_of (games s1) gameId = map_of (games (fst (run s ops))) gameId
               \<and> filter (forRoom gameId) out = []))
       \<and> makeMove g fr fc tr tc pid now =
           (fst (makeMove (g\<lparr>status := Playing\<rparr>) fr fc tr tc pid now),
            (snd (makeMove (g\<lparr>status := Playing\<rparr>) fr fc tr tc pid now))\<lparr>status := status g\<rparr>)"
proof -
  have "terminalOrGone s gameId" using assms(1,2) by (simp add: terminalOrGone_def)
  from run_terminalOrGone[OF assms(3) this]
  have t: "terminalOrGone (fst (run s ops)) gameId" .
  then have a: "\<forall>g'. map_of (games (fst (run s ops))) gameId = Some g' \<longrightarrow> status g' \<noteq> Playing"
    by (auto simp: terminalOrGone_def)
  have b: "tickGame t gameId g = (g, [])" for t
    using assms(2) by (rule tickGame_not_playing)
  have c: "map_of (games (fst (timeUpdates s clock))) gameId = Some g"
    by (simp add: timeUpdates_def case_prod_beta map_of_tickGames assms(1) b)
  have d: "makeMove g fr fc tr tc pid now =
           (fst (makeMove (g\<lparr>status := Playing\<rparr>) fr fc tr tc pid now),
            (snd (makeMove (g\<lparr>status := Playing\<rparr>) fr fc tr tc pid now))\<lparr>status := status g\<rparr>)"
    using makeMove_status_blind[where g = "g\<lparr>status := Playing\<rparr>" and st = "status g"] by simp
  have e: "distinct (map fst (games s)) \<longrightarrow>
            (case timeUpdates (fst (run s ops)) clock of (s1, out) \<Rightarrow>
               map_of (games s1) gameId = map_of (games (fst (run s ops))) gameId
               \<and> filter (forRoom gameId) out = [])"
    using ended_game_ticker_silent[OF run_distinct_games t, of clock]
    by (simp add: case_prod_beta)
  note f = timeUpdates_sent[of s clock]
  from a b c d e f show ?thesis by blast
qed

lemma exOps_no_create: "list_all (\<lambda>i. \<not> createsGame ''g1'' i) exOps"
  by (simp add: exOps_def)

lemma exResigned_eq:
  "exResigned = exServer\<lparr>games := [(''g1'', exGame\<lparr>status := Resigned\<rparr>)]\<rparr>"
  by (simp add: exResigned_def handleResign_def exServer_def Let_def setGame_def exGame_def
      newGame_def alice_def bob_def)

lemma exOps_run_status:
  "\<exists>g'. map_of (games (fst (run exResigned exOps))) ''g1'' = Some g' \<and> status g' = Draw
     \<and> currentPlayer g' = Black \<and> whiteTime g' = 899000"
  by (simp add: exResigned_eq exOps_def handleMove_def handleDrawAccept_def timeUpdates_def
      tickGame_def makeMove_def setGame_def board_defs ex_defs Let_def)

lemma exResigned_distinct: "distinct (map fst (games exResigned))"
  by (simp add: exResigned_eq)

lemma exOps_run_eq:
  "fst (run exResigned exOps) =
     exServer\<lparr>games := [(''g1'', (snd (makeMove exGame 6 4 4 4 ''w1'' 1000))\<lparr>status := Draw\<rparr>)]\<rparr>"
  by (simp add: exResigned_eq exOps_def handleMove_def handleDrawAccept_def timeUpdates_def
      tickGame_def makeMove_def setGame_def board_defs ex_defs Let_def)

theorem terminal_status_stays_terminal_witness:
  "map_of (games exResigned) ''g1'' = Some (exGame\<lparr>status := Resigned\<rparr>)
   \<and> status (exGame\<lparr>status := Resigned\<rparr>) = Resigned
   \<and> distinct (map fst (games exResigned))
   \<and> (\<exists>g'. map_of (games (fst (run exResigned exOps))) ''g1'' = Some g' \<and> status g' = Draw)
   \<and> tickGame 5000 ''g1'' (exGame\<lparr>status := Resigned\<rparr>) = (exGame\<lparr>status := Resigned\<rparr>, [])
   \<and> timeUpdates exResigned (\<lambda>k. 5000) = (exResigned, [])
   \<and> filter (forRoom ''g1'') (snd (timeUpdates (fst (run exResigned exOps)) (\<lambda>k. 5000))) = []"
  using terminal_status_stays_terminal [OF exResigned_game _ exOps_no_create,
      where now = 5000 and clock = "\<lambda>k. 5000"]
    exOps_run_status exResigned_distinct
  by (auto simp: exResigned_game case_prod_beta)
     (simp add: exResigned_eq timeUpdates_def tickGame_def)

text \<open>
  C1 as stated fails. Bob has resigned, the status of \<open>g1\<close> is \<open>resigned\<close>. Alice's
  move e2-e4 is accepted all the same: the pawn is moved, the move is logged and broadcast,
  1000 ms are taken from White's clock and the side to move becomes Black. And a later
  \<open>acceptDraw\<close>, here from Carol who is not in the game, changes the status from
  \<open>resigned\<close> to \<open>draw\<close>.
\<close>

theorem terminal_session_still_mutable:
  "map_of (games exResigned) ''g1'' = Some (exGame\<lparr>status := Resigned\<rparr>)
   \<and> (\<exists>mv g'. handleMove exResigned ''w1'' ''g1'' 6 4 4 4 1000 =
                 (setGame exResigned ''g1'' g', [Emit (ToRoom ''g1'') (MoveMade mv (getGameState g'))])
        \<and> status g' = Resigned
        \<and> cellAt (board exGame) 4 4 = None \<and> cellAt (board g') 4 4 = Some WPawn
        \<and> moves exGame = [] \<and> moves g' = [mv]
        \<and> whiteTime exGame = 900000 \<and> whiteTime g' = 899000
        \<and> currentPlayer exGame = White \<and> currentPlayer g' = Black)
   \<and> map_of (games (fst (handleDrawAccept exResigned ''c1'' ''g1''))) ''g1'' =
        Some (exGame\<lparr>status := Draw\<rparr>)"
  by (simp add: exResigned_eq handleMove_def handleDrawAccept_def makeMove_def setGame_def
      board_defs ex_defs Let_def)

section \<open>Disconnection and resignation\<close>

lemma disconnectGames_timers:
  "(SetTimeout d k sid' \<in> set (snd (disconnectGames sid pl gs))) =
     (d = 30000 \<and> sid' = sid \<and>
      (\<exists>g. (k, g) \<in> set gs \<and> (p_id (white g) = sid \<or> p_id (black g) = sid)))"
  by (induction gs) (auto simp: Let_def case_prod_beta split: option.splits)

text \<open>
  C3, as the code has it. When a socket disconnects, a timer of 30000 ms is armed for exactly the
  registered games in which it is white or black, and the games keep their status. When the timer
  fires, the only test is whether the game id is still registered. If it is not, nothing happens.
  If it is, then whatever the status of the game is at that moment, one \<open>gameEnded\<close> event goes
  to the room, with the other side as winner and a snapshot whose status is \<open>disconnected\<close>,
  and the game is removed from the registry; no other game is touched.
\<close>

theorem deferred_disconnect_ignores_status:
  "(map_of (games s) gameId = None \<longrightarrow> disconnectTimeout s gameId socketId = (s, []))
   \<and> (\<forall>g. map_of (games s) gameId = Some g \<longrightarrow>
        snd (disconnectTimeout s gameId socketId) =
          [Emit (ToRoom gameId)
             (GameEnded (if p_id (white g) = socketId then BlackWins else WhiteWins)
                (PlayerLeft (p_name (if p_id (white g) = socketId then white g else black g)))
                (getGameState (g\<lparr>status := Disconnected\<rparr>)))]
        \<and> map_of (games (fst (disconnectTimeout s gameId socketId))) gameId = None
        \<and> (\<forall>k. k \<noteq> gameId \<longrightarrow>
              map_of (games (fst (disconnectTimeout s gameId socketId))) k = map_of (games s) k))
   \<and> ((SetTimeout d k sid \<in> set (snd (handleDisconnect s socketId))) =
        (d = 30000 \<and> sid = socketId \<and>
         (\<exists>g. (k, g) \<in> set (games s) \<and> (p_id (white g) = socketId \<or> p_id (black g) = socketId))))
   \<and> map_of (games (fst (handleDisconnect s socketId))) k =
        map_option (\<lambda>g. g\<lparr>spectators := spectators g - {socketId}\<rparr>) (map_of (games s) k)"
proof -
  have a: "map_of (games s) gameId = None \<longrightarrow> disconnectTimeout s gameId socketId = (s, [])"
    by (simp add: disconnectTimeout_def)
  have b: "\<forall>g. map_of (games s) gameId = Some g \<longrightarrow>
        snd (disconnectTimeout s gameId socketId) =
          [Emit (ToRoom gameId)
             (GameEnded (if p_id (white g) = socketId then BlackWins else WhiteWins)
                (PlayerLeft (p_name (if p_id (white g) = socketId then white g else black g)))
                (getGameState (g\<lparr>status := Disconnected\<rparr>)))]
        \<and> map_of (games (fst (disconnectTimeout s gameId socketId))) gameId = None
        \<and> (\<forall>k. k \<noteq> gameId \<longrightarrow>
              map_of (games (fst (disconnectTimeout s gameId socketId))) k = map_of (games s) k)"
    by (auto simp: disconnectTimeout_def Let_def delete_conv')
  have c: "(SetTimeout d k sid \<in> set (snd (handleDisconnect s socketId))) =
        (d = 30000 \<and> sid = socketId \<and>
         (\<exists>g. (k, g) \<in> set (games s) \<and> (p_id (white g) = socketId \<or> p_id (black g) = socketId)))"
    by (simp add: handleDisconnect_def Let_def case_prod_beta disconnectGames_timers)
  have e: "map_of (games (fst (handleDisconnect s socketId))) k =
        map_option (\<lambda>g. g\<lparr>spectators := spectators g - {socketId}\<rparr>) (map_of (games s) k)"
    by (simp add: handleDisconnect_def Let_def case_prod_beta map_of_disconnectGames)
  from a b c e show ?thesis by blast
qed

lemma exDisconnected_eq:
  "exDisconnected = exServer\<lparr>players := [''b1'' \<mapsto> bob, ''c1'' \<mapsto> carol]\<rparr>"
  by (auto simp: exDisconnected_def handleDisconnect_def removeWaiting_def exServer_def
      Let_def ex_defs)

lemma exDisconnected_out:
  "snd (handleDisconnect exServer ''w1'') =
     [Emit (ToRoom ''g1'') (PlayerDisconnected ''Alice'' (getGameState exGame)),
      SetTimeout 30000 ''g1'' ''w1'']"
  by (simp add: handleDisconnect_def exServer_def Let_def ex_defs)

lemma exRaced_eq:
  "exRaced = exDisconnected\<lparr>games := [(''g1'', exGame\<lparr>status := Resigned\<rparr>)]\<rparr>"
  by (simp add: exRaced_def exDisconnected_eq handleResign_def exServer_def Let_def setGame_def
      exGame_def newGame_def alice_def bob_def)

lemma exRaced_game: "map_of (games exRaced) ''g1'' = Some (exGame\<lparr>status := Resigned\<rparr>)"
  by (simp add: exRaced_eq)

theorem deferred_disconnect_ignores_status_witness:
  "map_of (games exRaced) ''g1'' = Some (exGame\<lparr>status := Resigned\<rparr>)
   \<and> snd (disconnectTimeout exRaced ''g1'' ''w1'') =
       [Emit (ToRoom ''g1'')
          (GameEnded BlackWins (PlayerLeft ''Alice'') (getGameState (exGame\<lparr>status := Disconnected\<rparr>)))]
   \<and> map_of (games (fst (disconnectTimeout exRaced ''g1'' ''w1''))) ''g1'' = None
   \<and> map_of (games exRaced) ''g2'' = None
   \<and> disconnectTimeout exRaced ''g2'' ''w1'' = (exRaced, [])"
  using deferred_disconnect_ignores_status [of exRaced "''g1''" "''w1''"]
    deferred_disconnect_ignores_status [of exRaced "''g2''" "''w1''"]
  by (simp add: exRaced_game) (simp add: exRaced_eq ex_defs)

text \<open>
  C3 as stated fails. Alice disconnects from the playing game \<open>g1\<close> and the timer is armed;
  Bob resigns before it fires, so the status is \<open>resigned\<close>. The timer fires all the same:
  it broadcasts \<open>gameEnded\<close> with status \<open>disconnected\<close> (Black wins, the reason is
  Alice's disconnection) and removes the game.
\<close>

theorem deferred_disconnect_overwrites_resignation:
  "SetTimeout 30000 ''g1'' ''w1'' \<in> set (snd (handleDisconnect exServer ''w1''))
   \<and> exDisconnected = fst (handleDisconnect exServer ''w1'')
   \<and> exRaced = fst (handleResign exDisconnected ''b1'' ''g1'')
   \<and> (\<exists>g. map_of (games exRaced) ''g1'' = Some g \<and> status g = Resigned)
   \<and> (\<exists>snap. snd (disconnectTimeout exRaced ''g1'' ''w1'') =
          [Emit (ToRoom ''g1'') (GameEnded BlackWins (PlayerLeft ''Alice'') snap)]
        \<and> gs_status snap = Disconnected)
   \<and> map_of (games (fst (disconnectTimeout exRaced ''g1'' ''w1''))) ''g1'' = None"
proof -
  have 1: "SetTimeout 30000 ''g1'' ''w1'' \<in> set (snd (handleDisconnect exServer ''w1''))"
    by (simp add: exDisconnected_out)
  have 2: "\<exists>g. map_of (games exRaced) ''g1'' = Some g \<and> status g = Resigned"
    by (simp add: exRaced_game)
  have 3: "\<exists>snap. snd (disconnectTimeout exRaced ''g1'' ''w1'') =
          [Emit (ToRoom ''g1'') (GameEnded BlackWins (PlayerLeft ''Alice'') snap)]
        \<and> gs_status snap = Disconnected"
    by (simp add: disconnectTimeout_def exRaced_game Let_def getGameState_def ex_defs)
  have 4: "map_of (games (fst (disconnectTimeout exRaced ''g1'' ''w1''))) ''g1'' = None"
    by (simp add: disconnectTimeout_def exRaced_game Let_def delete_conv')
  from 1 2 3 4 exDisconnected_def exRaced_def show ?thesis by blast
qed

text \<open>
  C4, as the code has it. Every \<open>resign\<close> from a registered socket that is white or black in
  a registered game sets the status to \<open>resigned\<close> and broadcasts one \<open>gameEnded\<close> event
  to the room, whatever the status was. A second call therefore leaves the state as the first one
  left it, and broadcasts the same \<open>gameEnded\<close> event once more.
\<close>

theorem resign_rebroadcasts:
  assumes "map_of (games s) gameId = Some g" and "players s socketId = Some pl"
    and "p_id (white g) = socketId \<or> p_id (black g) = socketId"
  shows "handleResign s socketId gameId =
           (setGame s gameId (g\<lparr>status := Resigned\<rparr>),
            [Emit (ToRoom gameId)
               (GameEnded (if p_id (white g) = socketId then BlackWins else WhiteWins)
                  (PlayerResigned (p_name pl)) (getGameState (g\<lparr>status := Resigned\<rparr>)))])
         \<and> handleResign (fst (handleResign s socketId gameId)) socketId gameId =
             handleResign s socketId gameId"
proof -
  have first: "handleResign s socketId gameId =
           (setGame s gameId (g\<lparr>status := Resigned\<rparr>),
            [Emit (ToRoom gameId)
               (GameEnded (if p_id (white g) = socketId then BlackWins else WhiteWins)
                  (PlayerResigned (p_name pl)) (getGameState (g\<lparr>status := Resigned\<rparr>)))])"
    using assms by (auto simp: handleResign_def Let_def)
  let ?s1 = "setGame s gameId (g\<lparr>status := Resigned\<rparr>)"
  have g1: "map_of (games ?s1) gameId = Some (g\<lparr>status := Resigned\<rparr>)"
    by (simp add: games_setGame)
  have "handleResign ?s1 socketId gameId =
          (setGame ?s1 gameId (g\<lparr>status := Resigned\<rparr>),
            [Emit (ToRoom gameId)
               (GameEnded (if p_id (white g) = socketId then BlackWins else WhiteWins)
                  (PlayerResigned (p_name pl)) (getGameState (g\<lparr>status := Resigned\<rparr>)))])"
    using assms(2,3) g1 by (auto simp: handleResign_def Let_def)
  moreover have "setGame ?s1 gameId (g\<lparr>status := Resigned\<rparr>) = ?s1"
    using g1 by (rule setGame_same)
  ultimately show ?thesis using first by simp
qed

lemma exServer_game: "map_of (games exServer) ''g1'' = Some exGame"
  by (simp add: exServer_def)

lemma exServer_bob: "players exServer ''b1'' = Some bob"
  by (simp add: exServer_def)

lemma exGame_bob: "p_id (white exGame) = ''b1'' \<or> p_id (black exGame) = ''b1''"
  by (simp add: ex_defs)

theorem resign_rebroadcasts_witness:
  "map_of (games exServer) ''g1'' = Some exGame
   \<and> players exServer ''b1'' = Some bob
   \<and> p_id (black exGame) = ''b1''
   \<and> handleResign exServer ''b1'' ''g1'' =
       (exResigned,
        [Emit (ToRoom ''g1'')
           (GameEnded WhiteWins (PlayerResigned ''Bob'') (getGameState (exGame\<lparr>status := Resigned\<rparr>)))])
   \<and> handleResign exResigned ''b1'' ''g1'' = handleResign exServer ''b1'' ''g1''"
proof -
  note r = resign_rebroadcasts [OF exServer_game exServer_bob exGame_bob]
  have w: "p_id (white exGame) \<noteq> ''b1''" and b: "p_id (black exGame) = ''b1''"
    by (simp_all add: ex_defs)
  have n: "p_name bob = ''Bob''" by (simp add: bob_def)
  from r[THEN conjunct1] have 1: "handleResign exServer ''b1'' ''g1'' =
       (exResigned,
        [Emit (ToRoom ''g1'')
           (GameEnded WhiteWins (PlayerResigned ''Bob'') (getGameState (exGame\<lparr>status := Resigned\<rparr>)))])"
    by (simp add: exResigned_def w n)
  have 2: "handleResign exResigned ''b1'' ''g1'' = handleResign exServer ''b1'' ''g1''"
    unfolding exResigned_def by (rule r[THEN conjunct2])
  from 1 2 b exServer_game exServer_bob show ?thesis by blast
qed

text \<open>
  C4 as stated fails. Bob resigns twice: the second call, on the game that is already
  \<open>resigned\<close>, broadcasts \<open>gameEnded\<close> again.
\<close>

theorem second_resign_broadcasts_again:
  "exResigned = fst (handleResign exServer ''b1'' ''g1'')
   \<and> snd (handleResign exServer ''b1'' ''g1'') =
       [Emit (ToRoom ''g1'')
          (GameEnded WhiteWins (PlayerResigned ''Bob'') (getGameState (exGame\<lparr>status := Resigned\<rparr>)))]
   \<and> snd (handleResign exResigned ''b1'' ''g1'') =
       [Emit (ToRoom ''g1'')
          (GameEnded WhiteWins (PlayerResigned ''Bob'') (getGameState (exGame\<lparr>status := Resigned\<rparr>)))]"
  by (simp add: exResigned_eq exResigned_def[symmetric])
     (simp add: handleResign_def exServer_def Let_def exGame_def newGame_def alice_def bob_def)

section \<open>Running out of time\<close>

text \<open>
  A game that stays \<open>playing\<close> through a ticker pass or a move has time left on both clocks,
  and a new game starts with 900000 ms on each. So in every state the server can reach, the games
  that are playing have both clocks above zero.
\<close>

lemma tickGame_still_playing:
  assumes "status (fst (tickGame now gid g)) = Playing"
  shows "0 < whiteTime (fst (tickGame now gid g)) \<and> 0 < blackTime (fst (tickGame now gid g))"
  using assms by (auto simp: tickGame_def Let_def split: if_splits)

lemma handleMatchmaking_new_game:
  assumes "map_of (games (fst (handleMatchmaking s sid r c newId now))) gid = Some g'"
  shows "map_of (games s) gid = Some g' \<or> (\<exists>w b. g' = newGame newId w b now)"
  using assms
  by (auto simp: handleMatchmaking_def Let_def games_setGame split: option.splits if_splits)

lemma step_clocksRunning:
  assumes "clocksRunning s"
  shows "clocksRunning (fst (step s i))"
  unfolding clocksRunning_def
proof (intro allI impI)
  fix gid g'
  assume reg: "map_of (games (fst (step s i))) gid = Some g'" and pl: "status g' = Playing"
  show "0 < whiteTime g' \<and> 0 < blackTime g'"
  proof (cases "createsGame gid i")
    case True
    then obtain sid r c now where i: "i = FindMatch sid r c gid now"
      by (cases i) auto
    from reg i have "map_of (games s) gid = Some g' \<or> (\<exists>w b. g' = newGame gid w b now)"
      by (simp add: handleMatchmaking_new_game)
    then show ?thesis
      using assms pl by (auto simp: clocksRunning_def newGame_def)
  next
    case False
    from step_game_cases[OF False reg] obtain g where g: "map_of (games s) gid = Some g"
      and cases: "g' = g
            \<or> (\<exists>S. g' = g\<lparr>spectators := S\<rparr>)
            \<or> g' = g\<lparr>status := Resigned\<rparr>
            \<or> g' = g\<lparr>status := Draw\<rparr>
            \<or> (\<exists>now. g' = fst (tickGame now gid g))
            \<or> (\<exists>sid fr fc tr tc now mv g1.
                  i = MakeMove sid gid fr fc tr tc now \<and> players s sid \<noteq> None
                  \<and> makeMove g fr fc tr tc sid now = (Some mv, g1)
                  \<and> ((g' = g1 \<and> 0 < whiteTime g1 \<and> 0 < blackTime g1)
                       \<or> g' = g1\<lparr>status := TimeOut\<rparr>))"
      by blast
    have old: "status g = Playing \<Longrightarrow> 0 < whiteTime g \<and> 0 < blackTime g"
      using assms g by (simp add: clocksRunning_def)
    from cases pl old show ?thesis
      using tickGame_still_playing[of _ gid g] by auto
  qed
qed

lemma run_clocksRunning:
  "clocksRunning s \<Longrightarrow> clocksRunning (fst (run s ops))"
proof (induction ops arbitrary: s)
  case Nil then show ?case by simp
next
  case (Cons i rest)
  from Cons.prems have "clocksRunning (fst (step s i))" by (rule step_clocksRunning)
  from Cons.IH[OF this] show ?case by (simp add: case_prod_beta Let_def)
qed

lemma reachable_clocks_running:
  assumes "map_of (games (fst (run emptyServer ops))) gid = Some g" and "status g = Playing"
  shows "0 < whiteTime g \<and> 0 < blackTime g"
proof -
  have "clocksRunning emptyServer" by (simp add: clocksRunning_def emptyServer_def)
  then have "clocksRunning (fst (run emptyServer ops))" by (rule run_clocksRunning)
  with assms show ?thesis by (simp add: clocksRunning_def)
qed







section \<open>The side to move\<close>

lemma opposite_opposite [simp]: "opposite (opposite c) = c"
  by (cases c) (simp_all add: opposite_def)

lemma makeMove_toggle:
  "currentPlayer (snd (makeMove g fr fc tr tc pid now)) =
     (if fst (makeMove g fr fc tr tc pid now) = None then currentPlayer g
      else opposite (currentPlayer g))
   \<and> length (moves (snd (makeMove g fr fc tr tc pid now))) =
     (if fst (makeMove g fr fc tr tc pid now) = None then length (moves g)
      else Suc (length (moves g)))"
proof (cases "fst (makeMove g fr fc tr tc pid now)")
  case None
  then show ?thesis by (simp add: makeMove_rejected_same)
next
  case (Some mv)
  then have "makeMove g fr fc tr tc pid now = (Some mv, snd (makeMove g fr fc tr tc pid now))"
    by (simp add: prod_eq_iff)
  from makeMove_accepted_fields(1,2)[OF this] Some show ?thesis by simp
qed

lemma playAll_parity:
  "playAll g reqs = (g', n) \<Longrightarrow>
     currentPlayer g' = (if even n then currentPlayer g else opposite (currentPlayer g))
     \<and> length (moves g') = length (moves g) + n"
proof (induction reqs arbitrary: g g' n)
  case Nil
  then show ?case by simp
next
  case (Cons rq rest)
  obtain fr fc tr tc pid now where rq: "rq = (fr, fc, tr, tc, pid, now)"
    by (cases rq) auto
  let ?r = "fst (makeMove g fr fc tr tc pid now)" and ?g1 = "snd (makeMove g fr fc tr tc pid now)"
  note t = makeMove_toggle[of g fr fc tr tc pid now]
  show ?case
  proof (cases ?r)
    case None
    with Cons.prems rq have "playAll ?g1 rest = (g', n)"
      by (simp add: case_prod_beta)
    from Cons.IH[OF this] t None show ?thesis by simp
  next
    case (Some mv)
    with Cons.prems rq have g': "g' = fst (playAll ?g1 rest)"
      and n: "n = Suc (snd (playAll ?g1 rest))"
      by (auto simp: case_prod_beta Let_def)
    from g' have "playAll ?g1 rest = (g', snd (playAll ?g1 rest))" by simp
    from Cons.IH[OF this] t Some n show ?thesis by simp
  qed
qed

lemma tickGame_side: "currentPlayer (fst (tickGame now gid g)) = currentPlayer g"
  by (simp add: tickGame_def Let_def)

lemma step_side_to_move:
  assumes "\<not> createsGame gid i" and "map_of (games s) gid = Some g"
    and "map_of (games (fst (step s i))) gid = Some g'"
  shows "currentPlayer g' =
           (if acceptedMoveOn s gid i then opposite (currentPlayer g) else currentPlayer g)"
proof -
  from step_game_cases[OF assms(1) assms(3)] assms(2)
  have cases: "g' = g
            \<or> (\<exists>S. g' = g\<lparr>spectators := S\<rparr>)
            \<or> g' = g\<lparr>status := Resigned\<rparr>
            \<or> g' = g\<lparr>status := Draw\<rparr>
            \<or> (\<exists>now. g' = fst (tickGame now gid g))
            \<or> (\<exists>sid fr fc tr tc now mv g1.
                  i = MakeMove sid gid fr fc tr tc now \<and> players s sid \<noteq> None
                  \<and> makeMove g fr fc tr tc sid now = (Some mv, g1)
                  \<and> ((g' = g1 \<and> 0 < whiteTime g1 \<and> 0 < blackTime g1)
                       \<or> g' = g1\<lparr>status := TimeOut\<rparr>))"
    by auto
  show ?thesis
  proof (cases "acceptedMoveOn s gid i")
    case True
    then obtain sid fr fc tr tc now where i: "i = MakeMove sid gid fr fc tr tc now"
      and nr: "\<not> moveRejected s sid gid fr fc tr tc now"
      by (cases i) auto
    from nr assms(2) obtain mv g1 where acc: "makeMove g fr fc tr tc sid now = (Some mv, g1)"
      and pl: "players s sid \<noteq> None"
      by (auto simp: moveRejected_def split: option.splits) (metis prod.collapse)
    have "g' = g1 \<or> g' = g1\<lparr>status := TimeOut\<rparr>"
      using assms(3) i acc pl assms(2)
      by (auto simp: handleMove_def games_setGame Let_def split: if_splits)
    then show ?thesis
      using True makeMove_accepted_fields(1)[OF acc] by auto
  next
    case False
    have no: "\<not> (\<exists>sid fr fc tr tc now mv g1.
                  i = MakeMove sid gid fr fc tr tc now \<and> players s sid \<noteq> None
                  \<and> makeMove g fr fc tr tc sid now = (Some mv, g1))"
    proof
      assume "\<exists>sid fr fc tr tc now mv g1.
                  i = MakeMove sid gid fr fc tr tc now \<and> players s sid \<noteq> None
                  \<and> makeMove g fr fc tr tc sid now = (Some mv, g1)"
      with assms(2) have "acceptedMoveOn s gid i"
        by (auto simp: moveRejected_def)
      with False show False by simp
    qed
    from cases no have "g' = g
            \<or> (\<exists>S. g' = g\<lparr>spectators := S\<rparr>)
            \<or> g' = g\<lparr>status := Resigned\<rparr>
            \<or> g' = g\<lparr>status := Draw\<rparr>
            \<or> (\<exists>now. g' = fst (tickGame now gid g))"
      by blast
    then have "currentPlayer g' = currentPlayer g"
      by (auto simp: tickGame_side)
    with False show ?thesis by simp
  qed
qed

lemma run_unregistered:
  "list_all (\<lambda>i. \<not> createsGame gid i) ops \<Longrightarrow> map_of (games s) gid = None \<Longrightarrow>
   map_of (games (fst (run s ops))) gid = None"
proof (induction ops arbitrary: s)
  case Nil then show ?case by simp
next
  case (Cons i rest)
  from Cons.prems have "map_of (games (fst (step s i))) gid = None"
    by (simp add: step_unregistered)
  from Cons.IH[OF _ this] Cons.prems show ?case
    by (simp add: case_prod_beta Let_def)
qed

lemma run_side_to_move:
  assumes "list_all (\<lambda>i. \<not> createsGame gid i) ops"
    and "map_of (games s) gid = Some g"
    and "map_of (games (fst (run s ops))) gid = Some g'"
  shows "currentPlayer g' =
           (if even (acceptedCount s gid ops) then currentPlayer g else opposite (currentPlayer g))"
  using assms
proof (induction ops arbitrary: s g)
  case Nil
  then show ?case by simp
next
  case (Cons i rest)
  let ?s1 = "fst (step s i)"
  from Cons.prems(1) have nc: "\<not> createsGame gid i"
    and rest: "list_all (\<lambda>i. \<not> createsGame gid i) rest"
    by simp_all
  from Cons.prems(3) have fin: "map_of (games (fst (run ?s1 rest))) gid = Some g'"
    by (simp add: case_prod_beta Let_def)
  obtain g1 where g1: "map_of (games ?s1) gid = Some g1"
  proof (cases "map_of (games ?s1) gid")
    case None
    from run_unregistered[OF rest None] fin show ?thesis by simp
  next
    case (Some a)
    then show ?thesis by (rule that)
  qed
  note one = step_side_to_move[OF nc Cons.prems(2) g1]
  note more = Cons.IH[OF rest g1 fin]
  from one more show ?case by simp
qed

text \<open>
  C9. The side to move is a single field, White or Black. A call of \<open>Game.makeMove\<close> that is
  accepted turns it into the other side, a call that is rejected leaves it. A new game starts with
  White to move, so after any sequence of calls on a new game of which \<open>n\<close> were accepted, the
  side to move is White if \<open>n\<close> is even and Black if \<open>n\<close> is odd, and the move log holds
  \<open>n\<close> moves. Nothing else changes the side to move: along any run of server steps (moves,
  resignations, draws, spectating, disconnects, timers, ticker passes) the side to move of a game
  that is still registered has flipped once for each accepted move on that game.
\<close>

theorem side_to_move_alternates:
  "currentPlayer (snd (makeMove g fr fc tr tc pid now)) =
     (if fst (makeMove g fr fc tr tc pid now) = None then currentPlayer g
      else opposite (currentPlayer g))
   \<and> currentPlayer (newGame gameId w b t0) = White
   \<and> (\<forall>g2 n. playAll (newGame gameId w b t0) reqs = (g2, n) \<longrightarrow>
         currentPlayer g2 = (if even n then White else Black) \<and> length (moves g2) = n)
   \<and> (\<forall>g0 g'. list_all (\<lambda>i. \<not> createsGame gid i) ops \<and> map_of (games s) gid = Some g0
         \<and> map_of (games (fst (run s ops))) gid = Some g' \<longrightarrow>
         currentPlayer g' =
           (if even (acceptedCount s gid ops) then currentPlayer g0 else opposite (currentPlayer g0)))"
proof -
  have a: "currentPlayer (snd (makeMove g fr fc tr tc pid now)) =
     (if fst (makeMove g fr fc tr tc pid now) = None then currentPlayer g
      else opposite (currentPlayer g))"
    using makeMove_toggle[of g fr fc tr tc pid now] by simp
  have b: "currentPlayer (newGame gameId w b t0) = White"
    by (simp add: newGame_def)
  have c: "\<forall>g2 n. playAll (newGame gameId w b t0) reqs = (g2, n) \<longrightarrow>
         currentPlayer g2 = (if even n then White else Black) \<and> length (moves g2) = n"
    using playAll_parity[of "newGame gameId w b t0" reqs]
    by (auto simp: newGame_def opposite_def)
  have d: "\<forall>g0 g'. list_all (\<lambda>i. \<not> createsGame gid i) ops \<and> map_of (games s) gid = Some g0
         \<and> map_of (games (fst (run s ops))) gid = Some g' \<longrightarrow>
         currentPlayer g' =
           (if even (acceptedCount s gid ops) then currentPlayer g0 else opposite (currentPlayer g0))"
    using run_side_to_move[of gid ops s] by blast
  from a b c d show ?thesis by blast
qed

lemma exRequests_count: "snd (playAll exGame exRequests) = 2"
  by code_simp

lemma exPlay_count: "acceptedCount exServer ''g1'' exPlay = 2"
  by code_simp

lemma exPlay_no_create: "list_all (\<lambda>i. \<not> createsGame ''g1'' i) exPlay"
  by (simp add: exPlay_def)

lemma exPlay_registered:
  "map_of (games (fst (run exServer exPlay))) ''g1'' =
     Some (the (map_of (games (fst (run exServer exPlay))) ''g1''))"
  by code_simp

lemma ex_first_move_accepted: "fst (makeMove exGame 6 4 4 4 ''w1'' 1000) \<noteq> None"
  by (simp add: makeMove_def board_defs ex_defs Let_def)

theorem side_to_move_alternates_witness:
  "snd (playAll exGame exRequests) = 2
   \<and> currentPlayer (fst (playAll exGame exRequests)) = White
   \<and> acceptedCount exServer ''g1'' exPlay = 2
   \<and> currentPlayer (the (map_of (games (fst (run exServer exPlay))) ''g1'')) = White
   \<and> currentPlayer (snd (makeMove exGame 6 4 4 4 ''w1'' 1000)) = Black"
proof -
  note t = side_to_move_alternates [where g = exGame and fr = 6 and fc = 4 and tr = 4 and tc = 4
      and pid = "''w1''" and now = 1000 and gameId = "''g1''" and w = alice and b = bob
      and ?t0.0 = 0 and reqs = exRequests and gid = "''g1''" and ops = exPlay and s = exServer]
  have w: "currentPlayer exGame = White" by (simp add: ex_defs)
  from t ex_first_move_accepted w
  have 1: "currentPlayer (snd (makeMove exGame 6 4 4 4 ''w1'' 1000)) = Black"
    by (simp add: opposite_def)
  have "playAll exGame exRequests = (fst (playAll exGame exRequests), 2)"
    using exRequests_count by (simp add: prod_eq_iff)
  with t have 2: "currentPlayer (fst (playAll exGame exRequests)) = White"
    unfolding exGame_def by fastforce
  from t exPlay_no_create exServer_game exPlay_registered w
  have 3: "currentPlayer (the (map_of (games (fst (run exServer exPlay))) ''g1'')) =
      (if even (acceptedCount exServer ''g1'' exPlay) then White else Black)"
    by (metis opposite_def)
  from 1 2 3 exRequests_count exPlay_count show ?thesis by simp
qed

section \<open>Matchmaking\<close>

lemma findIndex_None: "(findIndex P xs = None) = (\<forall>x\<in>set xs. \<not> P x)"
  by (induction xs) auto

lemma findIndex_Some:
  "findIndex P xs = Some i \<Longrightarrow>
     i < length xs \<and> P (xs ! i) \<and> (\<forall>x\<in>set (take i xs). \<not> P x)"
proof (induction xs arbitrary: i)
  case Nil
  then show ?case by simp
next
  case (Cons x xs)
  show ?case
  proof (cases "P x")
    case True
    with Cons.prems show ?thesis by simp
  next
    case False
    with Cons.prems obtain j where j: "findIndex P xs = Some j" and i: "i = Suc j"
      by auto
    from Cons.IH[OF j] False i show ?thesis by simp
  qed
qed

lemma find_findIndex: "List.find P xs = map_option (\<lambda>i. xs ! i) (findIndex P xs)"
  by (induction xs) (auto simp: option.map_comp comp_def)

lemma removeWaiting_Cons:
  "removeWaiting sid (x # ws) = (if p_id x = sid then ws else x # removeWaiting sid ws)"
  by (simp add: removeWaiting_def splice1_def split: option.splits)

lemma removeWaiting_Nil: "removeWaiting sid [] = []"
  by (simp add: removeWaiting_def)

lemma removeWaiting_filter:
  "distinct (map p_id ws) \<Longrightarrow> removeWaiting sid ws = filter (\<lambda>p. p_id p \<noteq> sid) ws"
proof (induction ws)
  case Nil
  then show ?case by (simp add: removeWaiting_Nil)
next
  case (Cons x ws)
  show ?case
  proof (cases "p_id x = sid")
    case True
    with Cons.prems have "\<forall>p\<in>set ws. p_id p \<noteq> sid" by (auto simp: image_iff)
    then have "filter (\<lambda>p. p_id p \<noteq> sid) ws = ws" by (simp add: filter_id_conv)
    with True show ?thesis by (simp add: removeWaiting_Cons)
  next
    case False
    with Cons show ?thesis by (simp add: removeWaiting_Cons)
  qed
qed

text \<open>
  C7, as the code has it. Let a registered socket ask for a match, in a queue without duplicate
  tickets. The queue is first cleared of the caller's own ticket. Then the tickets are scanned in
  queue order for the first one whose rating differs from the caller's by at most the local
  \<open>ratingRange\<close>, which is the requested range, or 200 when none is requested and also when
  the requested range is 0: \<open>List.find\<close> on the cleared queue. If there is
  none, the caller's ticket is appended at the end and the caller gets its position; no game is
  created. If there is one, it is the earliest eligible ticket (every ticket before it is not
  eligible, however close in rating a later one may be); it is taken out of the queue, the caller
  is not put in, and a new game with the caller and that opponent as white and black (by the coin)
  is registered under the new id; no other game changes. The queue has no duplicate tickets
  afterwards.
\<close>

theorem matchmaking_first_fit:
  assumes "players s socketId = Some pl" and "p_id pl = socketId"
    and "distinct (map p_id (waitingPlayers s))"
  shows "(let w1 = filter (\<lambda>p. p_id p \<noteq> socketId) (waitingPlayers s);
              ratingRange = (case prefRange of None \<Rightarrow> 200 | Some r \<Rightarrow> if r = 0 then 200 else r);
              eligible = (\<lambda>wp. \<bar>p_rating wp - p_rating pl\<bar> \<le> ratingRange);
              s1 = fst (handleMatchmaking s socketId prefRange isPlayerWhite gameId now);
              out = snd (handleMatchmaking s socketId prefRange isPlayerWhite gameId now)
          in (case List.find eligible w1 of
                None \<Rightarrow>
                  waitingPlayers s1 = w1 @ [pl] \<and> games s1 = games s
                  \<and> out = [Emit (ToSocket socketId)
                             (WaitingForMatch (length w1 + 1) ((length w1 + 1) * 30))]
              | Some opponent \<Rightarrow>
                  (\<exists>pre post. w1 = pre @ opponent # post \<and> (\<forall>x\<in>set pre. \<not> eligible x)
                      \<and> waitingPlayers s1 = pre @ post)
                  \<and> eligible opponent \<and> p_id opponent \<noteq> socketId
                  \<and> socketId \<notin> p_id ` set (waitingPlayers s1)
                  \<and> p_id opponent \<notin> p_id ` set (waitingPlayers s1)
                  \<and> map_of (games s1) gameId =
                      Some (newGame gameId (if isPlayerWhite then pl else opponent)
                              (if isPlayerWhite then opponent else pl) now)
                  \<and> (\<forall>k. k \<noteq> gameId \<longrightarrow> map_of (games s1) k = map_of (games s) k)
                  \<and> out =
                      (let wh = (if isPlayerWhite then pl else opponent);
                           bl = (if isPlayerWhite then opponent else pl);
                           g = newGame gameId wh bl now
                       in [Emit (ToSocket (p_id wh))
                             (GameFound gameId White (p_name bl) (p_rating bl) (getGameState g)),
                           Emit (ToSocket (p_id bl))
                             (GameFound gameId Black (p_name wh) (p_rating wh) (getGameState g)),
                           Emit ToAll (GameCreated (gameSummaryOf g))]))
             \<and> distinct (map p_id (waitingPlayers s1)) \<and> players s1 = players s)"
proof -
  define w1 where "w1 = filter (\<lambda>p. p_id p \<noteq> socketId) (waitingPlayers s)"
  define rr where "rr = (case prefRange of None \<Rightarrow> (200::int) | Some r \<Rightarrow> if r = 0 then 200 else r)"
  define eligible :: "player \<Rightarrow> bool" where
    "eligible = (\<lambda>wp. \<bar>p_rating wp - p_rating pl\<bar> \<le> rr)"
  have rw: "removeWaiting socketId (waitingPlayers s) = w1"
    using assms(3) by (simp add: removeWaiting_filter w1_def)
  have dw1: "distinct (map p_id w1)"
    using assms(3) by (simp add: w1_def distinct_map_filter)
  have notin: "socketId \<notin> p_id ` set w1"
    by (auto simp: w1_def)
  show ?thesis
  proof (cases "findIndex eligible w1")
    case None
    then have f: "List.find eligible w1 = None" by (simp add: find_findIndex)
    have hm: "handleMatchmaking s socketId prefRange isPlayerWhite gameId now =
            (s\<lparr>waitingPlayers := w1 @ [pl]\<rparr>,
             [Emit (ToSocket socketId) (WaitingForMatch (length w1 + 1) ((length w1 + 1) * 30))])"
      using None assms(1)
      by (simp add: handleMatchmaking_def rw Let_def eligible_def rr_def)
    have "distinct (map p_id (w1 @ [pl]))"
      using dw1 notin assms(2) by auto
    with f hm show ?thesis
      by (simp add: Let_def w1_def[symmetric] rr_def[symmetric] eligible_def)
  next
    case (Some i)
    from findIndex_Some[OF Some] have i: "i < length w1" and el: "eligible (w1 ! i)"
      and pre: "\<forall>x\<in>set (take i w1). \<not> eligible x"
      by auto
    let ?opp = "w1 ! i"
    from Some have f: "List.find eligible w1 = Some ?opp" by (simp add: find_findIndex)
    have split: "w1 = take i w1 @ ?opp # drop (Suc i) w1"
      using i by (rule id_take_nth_drop)
    let ?wh = "if isPlayerWhite then pl else ?opp" and ?bl = "if isPlayerWhite then ?opp else pl"
    let ?g = "newGame gameId ?wh ?bl now"
    have hm: "handleMatchmaking s socketId prefRange isPlayerWhite gameId now =
            (setGame (s\<lparr>waitingPlayers := take i w1 @ drop (Suc i) w1\<rparr>) gameId ?g,
             [Emit (ToSocket (p_id ?wh))
                (GameFound gameId White (p_name ?bl) (p_rating ?bl) (getGameState ?g)),
              Emit (ToSocket (p_id ?bl))
                (GameFound gameId Black (p_name ?wh) (p_rating ?wh) (getGameState ?g)),
              Emit ToAll (GameCreated (gameSummaryOf ?g))])"
      using Some assms(1)
      by (simp add: handleMatchmaking_def rw Let_def eligible_def rr_def splice1_def)
    have opp_in: "?opp \<in> set w1" using i by simp
    with notin have opp_id: "p_id ?opp \<noteq> socketId" by auto
    have d2: "distinct (map p_id (take i w1 @ ?opp # drop (Suc i) w1))"
      using dw1 split by simp
    then have d3: "distinct (map p_id (take i w1 @ drop (Suc i) w1))"
      and opp_gone: "p_id ?opp \<notin> p_id ` set (take i w1 @ drop (Suc i) w1)"
      by auto
    have self_gone: "socketId \<notin> p_id ` set (take i w1 @ drop (Suc i) w1)"
      using notin by (auto dest: in_set_takeD in_set_dropD)
    have ex: "\<exists>pre post. w1 = pre @ ?opp # post \<and> (\<forall>x\<in>set pre. \<not> eligible x)
                \<and> take i w1 @ drop (Suc i) w1 = pre @ post"
      using split pre by blast
    from f hm el opp_id d3 opp_gone self_gone ex show ?thesis
      by (simp add: Let_def w1_def[symmetric] rr_def[symmetric] eligible_def games_setGame)
  qed
qed

lemma exQueue_alice: "players exQueue ''w1'' = Some alice"
  by (simp add: exQueue_def)

lemma exQueue_bob: "players exQueue ''b1'' = Some bob"
  by (simp add: exQueue_def)

lemma exQueue_distinct: "distinct (map p_id (waitingPlayers exQueue))"
  by (simp add: exQueue_def alice_def carol_def dave_def)

lemma alice_id: "p_id alice = ''w1''" by (simp add: alice_def)
lemma bob_id: "p_id bob = ''b1''" by (simp add: bob_def)

lemma exQueue_match:
  "handleMatchmaking exQueue ''w1'' None True ''g2'' 5000 =
     (exQueue\<lparr>waitingPlayers := [dave], games := [(''g2'', newGame ''g2'' alice carol 5000)]\<rparr>,
      [Emit (ToSocket ''w1'') (GameFound ''g2'' White ''Carol'' 1400 (getGameState (newGame ''g2'' alice carol 5000))),
       Emit (ToSocket ''c1'') (GameFound ''g2'' Black ''Alice'' 1500 (getGameState (newGame ''g2'' alice carol 5000))),
       Emit ToAll (GameCreated (gameSummaryOf (newGame ''g2'' alice carol 5000)))])"
  by (simp add: handleMatchmaking_def removeWaiting_def splice1_def setGame_def exQueue_def
      alice_def carol_def dave_def bob_def Let_def)

lemma exQueue_wait:
  "handleMatchmaking exQueue ''b1'' (Some 100) True ''g2'' 5000 =
     (exQueue\<lparr>waitingPlayers := [alice, carol, dave, bob]\<rparr>,
      [Emit (ToSocket ''b1'') (WaitingForMatch 4 120)])"
  by (simp add: handleMatchmaking_def removeWaiting_def splice1_def setGame_def exQueue_def
      alice_def carol_def dave_def bob_def Let_def)

theorem matchmaking_first_fit_witness:
  "waitingPlayers exQueue = [alice, carol, dave]
   \<and> \<bar>p_rating carol - p_rating alice\<bar> = 100 \<and> \<bar>p_rating dave - p_rating alice\<bar> = 0
   \<and> waitingPlayers (fst (handleMatchmaking exQueue ''w1'' None True ''g2'' 5000)) = [dave]
   \<and> map_of (games (fst (handleMatchmaking exQueue ''w1'' None True ''g2'' 5000))) ''g2'' =
        Some (newGame ''g2'' alice carol 5000)
   \<and> distinct (map p_id (waitingPlayers (fst (handleMatchmaking exQueue ''w1'' None True ''g2'' 5000))))
   \<and> handleMatchmaking exQueue ''b1'' (Some 100) True ''g2'' 5000 =
        (exQueue\<lparr>waitingPlayers := [alice, carol, dave, bob]\<rparr>,
         [Emit (ToSocket ''b1'') (WaitingForMatch 4 120)])
   \<and> distinct (map p_id (waitingPlayers (fst (handleMatchmaking exQueue ''b1'' (Some 100) True ''g2'' 5000))))"
proof -
  note m = matchmaking_first_fit [OF exQueue_alice alice_id exQueue_distinct,
      where prefRange = None and isPlayerWhite = True and gameId = "''g2''" and now = 5000]
  note w = matchmaking_first_fit [OF exQueue_bob bob_id exQueue_distinct,
      where prefRange = "Some 100" and isPlayerWhite = True and gameId = "''g2''" and now = 5000]
  from m have 1: "distinct (map p_id (waitingPlayers (fst (handleMatchmaking exQueue ''w1'' None True ''g2'' 5000))))"
    by (simp add: Let_def)
  from w have 2: "distinct (map p_id (waitingPlayers (fst (handleMatchmaking exQueue ''b1'' (Some 100) True ''g2'' 5000))))"
    by (simp add: Let_def)
  have 3: "waitingPlayers exQueue = [alice, carol, dave]"
    and 4: "\<bar>p_rating carol - p_rating alice\<bar> = 100" and 5: "\<bar>p_rating dave - p_rating alice\<bar> = 0"
    by (simp_all add: exQueue_def alice_def carol_def dave_def)
  have 6: "waitingPlayers (fst (handleMatchmaking exQueue ''w1'' None True ''g2'' 5000)) = [dave]"
    and 7: "map_of (games (fst (handleMatchmaking exQueue ''w1'' None True ''g2'' 5000))) ''g2'' =
        Some (newGame ''g2'' alice carol 5000)"
    by (simp_all add: exQueue_match)
  from 1 2 3 4 5 6 7 exQueue_wait show ?thesis by blast
qed

text \<open>
  C7 as stated fails for a requested range of 0, which \<open>||\<close> replaces by the default. The
  queue holds Alice's old ticket, Carol (rating 1400) and Dave (rating 1500); Alice (rating 1500)
  asks for a match with \<open>ratingRange\<close> 0. The only ticket within 0 of her rating is Dave's,
  but she is paired with Carol, the first ticket within 200, and Dave stays in the queue.
\<close>

theorem zero_range_falls_back_to_default:
  "waitingPlayers exQueue = [alice, carol, dave]
   \<and> \<bar>p_rating carol - p_rating alice\<bar> = 100
   \<and> \<bar>p_rating dave - p_rating alice\<bar> = 0
   \<and> map_of (games (fst (handleMatchmaking exQueue ''w1'' (Some 0) True ''g2'' 5000))) ''g2'' =
        Some (newGame ''g2'' alice carol 5000)
   \<and> waitingPlayers (fst (handleMatchmaking exQueue ''w1'' (Some 0) True ''g2'' 5000)) = [dave]"
  by (simp add: handleMatchmaking_def removeWaiting_def splice1_def setGame_def exQueue_def
      alice_def carol_def dave_def bob_def Let_def)

text \<open>
  The hypotheses of the matchmaking theorem hold in every state the server can reach from the
  empty one: a player is filed under its own socket id, and the queue never holds two tickets of
  one socket.
\<close>

lemma removeWaiting_distinct:
  "distinct (map p_id ws) \<Longrightarrow> distinct (map p_id (removeWaiting sid ws))"
  by (simp add: removeWaiting_filter distinct_map_filter)

lemma splice1_distinct: "distinct (map f xs) \<Longrightarrow> distinct (map f (splice1 i xs))"
proof -
  assume d: "distinct (map f xs)"
  have "distinct (map f (take i xs @ drop i xs))" using d by simp
  then have "distinct (map f (take i xs)) \<and> distinct (map f (drop i xs))
             \<and> f ` set (take i xs) \<inter> f ` set (drop i xs) = {}"
    by (simp only: map_append distinct_append set_map)
  moreover have "set (drop (Suc i) xs) \<subseteq> set (drop i xs)"
    by (simp add: set_drop_subset_set_drop)
  moreover have "distinct (map f (drop (Suc i) xs))"
    using d by (simp add: distinct_drop drop_map[symmetric])
  ultimately show ?thesis
    by (auto simp: splice1_def)
qed

lemma handleMatchmaking_lobby:
  assumes "players s sid = Some pl" and "p_id pl = sid"
    and "distinct (map p_id (waitingPlayers s))"
  shows "distinct (map p_id (waitingPlayers (fst (handleMatchmaking s sid r c gid now))))
         \<and> players (fst (handleMatchmaking s sid r c gid now)) = players s"
proof -
  let ?w1 = "removeWaiting sid (waitingPlayers s)"
  have d1: "distinct (map p_id ?w1)" using assms(3) by (rule removeWaiting_distinct)
  have n1: "sid \<notin> p_id ` set ?w1"
    using assms(3) by (auto simp: removeWaiting_filter)
  from d1 n1 assms(2) have "distinct (map p_id (?w1 @ [pl]))" by auto
  with d1 assms(1) show ?thesis
    by (auto simp: handleMatchmaking_def Let_def splice1_distinct split: option.splits)
qed

lemma step_lobby_inv:
  assumes "directoryOk s" and "queueOk s"
  shows "directoryOk (fst (step s i)) \<and> queueOk (fst (step s i))"
proof (cases i)
  case (Register sid name rating)
  with assms show ?thesis
    by (auto simp: register_def Let_def directoryOk_def queueOk_def)
next
  case (FindMatch sid r c gid now)
  show ?thesis
  proof (cases "players s sid")
    case None
    with assms FindMatch show ?thesis by (simp add: handleMatchmaking_def)
  next
    case (Some pl)
    with assms(1) have id: "p_id pl = sid" by (simp add: directoryOk_def)
    from handleMatchmaking_lobby[OF Some id] assms FindMatch show ?thesis
      by (simp add: queueOk_def directoryOk_def)
  qed
next
  case (MakeMove sid gid fr fc tr tc now)
  with assms show ?thesis
    by (auto simp: handleMove_def Let_def directoryOk_def queueOk_def
        split: option.splits prod.splits)
next
  case (SpectateGame sid gid)
  with assms show ?thesis
    by (auto simp: handleSpectate_def Let_def directoryOk_def queueOk_def split: option.splits)
next
  case (Resign sid gid)
  with assms show ?thesis
    by (auto simp: handleResign_def Let_def directoryOk_def queueOk_def split: option.splits)
next
  case (OfferDraw sid gid)
  with assms show ?thesis
    by (auto simp: handleDrawOffer_def Let_def directoryOk_def queueOk_def split: option.splits)
next
  case (AcceptDraw sid gid)
  with assms show ?thesis
    by (auto simp: handleDrawAccept_def Let_def directoryOk_def queueOk_def split: option.splits)
next
  case (Disconnect sid)
  with assms show ?thesis
    by (auto simp: handleDisconnect_def Let_def case_prod_beta directoryOk_def queueOk_def
        removeWaiting_distinct)
next
  case (TimerFired gid sid)
  with assms show ?thesis
    by (auto simp: disconnectTimeout_def Let_def directoryOk_def queueOk_def split: option.splits)
next
  case (Tick clock)
  with assms show ?thesis
    by (auto simp: timeUpdates_def Let_def case_prod_beta directoryOk_def queueOk_def)
qed


lemma run_lobby_inv:
  "directoryOk s \<Longrightarrow> queueOk s \<Longrightarrow>
   directoryOk (fst (run s ops)) \<and> queueOk (fst (run s ops))"
proof (induction ops arbitrary: s)
  case Nil then show ?case by simp
next
  case (Cons i rest)
  from step_lobby_inv[OF Cons.prems] Cons.IH[of "fst (step s i)"] show ?case
    by (simp add: case_prod_beta Let_def)
qed

lemma reachable_lobby:
  "directoryOk (fst (run emptyServer ops)) \<and> queueOk (fst (run emptyServer ops))"
  by (rule run_lobby_inv) (simp_all add: directoryOk_def queueOk_def emptyServer_def)

section \<open>Move requests with coordinates that are no indices\<close>

text \<open>
  On integer coordinates and a board of eight rows of eight squares, \<open>makeMoveRaw\<close> is
  \<open>makeMove\<close> and \<open>handleMoveRaw\<close> is \<open>handleMove\<close>. Every game of every state that
  the server reaches has such a board.
\<close>

lemma indexOf_int: "indexOf (Num (of_int a)) = (if 0 \<le> a then Some (nat a) else None)"
  by simp

lemma bounds_int:
  "below0 (Num (of_int a)) = (a < 0)" "above7 (Num (of_int a)) = (a > 7)"
  by simp_all

lemma makeMoveRaw_int:
  assumes "wf_board (board g)"
  shows "makeMoveRaw g (Num (of_int a)) (Num (of_int b)) (Num (of_int c)) (Num (of_int d)) pid now =
           (case makeMove g a b c d pid now of
              (None, g1) \<Rightarrow> ReturnedFalse
            | (Some mv, g1) \<Rightarrow> ReturnedMove mv g1)"
  using assms
  by (auto simp: makeMoveRaw_def makeMove_def Let_def indexOf_int wf_board_def
      simp del: indexOf.simps split: option.splits)

lemma handleMoveRaw_int:
  assumes "\<forall>g. map_of (games s) gameId = Some g \<longrightarrow> wf_board (board g)"
  shows "handleMoveRaw s socketId gameId (Num (of_int a)) (Num (of_int b)) (Num (of_int c))
           (Num (of_int d)) now =
         Completed (fst (handleMove s socketId gameId a b c d now))
           (snd (handleMove s socketId gameId a b c d now))"
proof (cases "map_of (games s) gameId")
  case None
  then show ?thesis by (simp add: handleMoveRaw_def handleMove_def)
next
  case (Some g)
  with assms have wf: "wf_board (board g)" by simp
  show ?thesis
  proof (cases "players s socketId")
    case None
    with Some show ?thesis by (simp add: handleMoveRaw_def handleMove_def)
  next
    case pl: (Some pl)
    show ?thesis
    proof (cases "fst (makeMove g a b c d socketId now)")
      case None
      then have "makeMove g a b c d socketId now = (None, g)"
        using makeMove_rejected_same[of g a b c d socketId now] by (simp add: prod_eq_iff)
      with Some pl wf show ?thesis
        by (simp add: handleMoveRaw_def handleMove_def makeMoveRaw_int setGame_same)
    next
      case (Some mv)
      then obtain g1 where "makeMove g a b c d socketId now = (Some mv, g1)"
        by (cases "makeMove g a b c d socketId now") simp
      with \<open>map_of (games s) gameId = Some g\<close> pl wf show ?thesis
        by (simp add: handleMoveRaw_def handleMove_def makeMoveRaw_int Let_def)
    qed
  qed
qed

lemma tickGame_board: "board (fst (tickGame now gid g)) = board g"
  by (simp add: tickGame_def Let_def)

lemma step_boardsOk:
  assumes "boardsOk s"
  shows "boardsOk (fst (step s i))"
  unfolding boardsOk_def
proof (intro allI impI)
  fix gid g'
  assume reg: "map_of (games (fst (step s i))) gid = Some g'"
  show "wf_board (board g')"
  proof (cases "createsGame gid i")
    case True
    then obtain sid r c now where i: "i = FindMatch sid r c gid now"
      by (cases i) auto
    from reg i have "map_of (games s) gid = Some g' \<or> (\<exists>w b. g' = newGame gid w b now)"
      by (simp add: handleMatchmaking_new_game)
    then show ?thesis
      using assms by (auto simp: boardsOk_def newGame_def wf_getInitialBoard)
  next
    case False
    from step_game_cases[OF False reg] obtain g where g: "map_of (games s) gid = Some g"
      and cases: "g' = g
            \<or> (\<exists>S. g' = g\<lparr>spectators := S\<rparr>)
            \<or> g' = g\<lparr>status := Resigned\<rparr>
            \<or> g' = g\<lparr>status := Draw\<rparr>
            \<or> (\<exists>now. g' = fst (tickGame now gid g))
            \<or> (\<exists>sid fr fc tr tc now mv g1.
                  i = MakeMove sid gid fr fc tr tc now \<and> players s sid \<noteq> None
                  \<and> makeMove g fr fc tr tc sid now = (Some mv, g1)
                  \<and> ((g' = g1 \<and> 0 < whiteTime g1 \<and> 0 < blackTime g1)
                       \<or> g' = g1\<lparr>status := TimeOut\<rparr>))"
      by blast
    have old: "wf_board (board g)" using assms g by (simp add: boardsOk_def)
    have mv: "wf_board (board g1)" if "makeMove g fr fc tr tc sid now = (Some mv, g1)"
      for fr fc tr tc sid now mv g1
      using makeMove_wf[OF old, of fr fc tr tc sid now] that by simp
    from cases old mv show ?thesis
      by (auto simp: tickGame_board)
  qed
qed

lemma run_boardsOk: "boardsOk s \<Longrightarrow> boardsOk (fst (run s ops))"
proof (induction ops arbitrary: s)
  case Nil then show ?case by simp
next
  case (Cons i rest)
  from Cons.prems have "boardsOk (fst (step s i))" by (rule step_boardsOk)
  from Cons.IH[OF this] show ?case by (simp add: case_prod_beta Let_def)
qed

lemma reachable_boards: "boardsOk (fst (run emptyServer ops))"
  by (rule run_boardsOk) (simp add: boardsOk_def emptyServer_def)

lemma handleMoveRaw_reachable:
  "handleMoveRaw (fst (run emptyServer ops)) socketId gameId
       (Num (of_int a)) (Num (of_int b)) (Num (of_int c)) (Num (of_int d)) now =
     Completed (fst (handleMove (fst (run emptyServer ops)) socketId gameId a b c d now))
       (snd (handleMove (fst (run emptyServer ops)) socketId gameId a b c d now))"
  using reachable_boards[of ops] by (intro handleMoveRaw_int) (simp add: boardsOk_def)

text \<open>
  Whenever the handler answers with \<open>moveError\<close>, whatever the coordinates, it has changed
  nothing and sent nothing else. When \<open>Game.makeMove\<close> throws, the board, the move log, the side
  to move and the status are as before, but the clock of the side to move and \<open>lastMoveTime\<close>
  may have been written.
\<close>

lemma handleMoveRaw_error_unchanged:
  assumes "handleMoveRaw s socketId gameId fromRow fromCol toRow toCol now = Completed s1 out"
    and "Emit (ToSocket socketId) (MoveError m) \<in> set out"
  shows "s1 = s \<and> out = [Emit (ToSocket socketId) (MoveError m)]"
  using assms
  by (auto simp: handleMoveRaw_def Let_def split: option.splits moveOutcome.splits if_splits)

lemma makeMoveRaw_threw:
  assumes "makeMoveRaw g fromRow fromCol toRow toCol pid now = Threw e g1"
  shows "board g1 = board g \<and> moves g1 = moves g \<and> currentPlayer g1 = currentPlayer g
         \<and> status g1 = status g
         \<and> (g1 = g \<or> g1 = g\<lparr>whiteTime := whiteTime g - (now - lastMoveTime g), lastMoveTime := now\<rparr>
              \<or> g1 = g\<lparr>blackTime := blackTime g - (now - lastMoveTime g), lastMoveTime := now\<rparr>)"
  using assms
  by (auto simp: makeMoveRaw_def Let_def split: if_splits option.splits)

lemma indexOf_examples:
  "indexOf (Num (9 / 2)) = None" "indexOf (Num (13 / 2)) = None"
  "indexOf (Num 6) = Some 6" "indexOf (Num 4) = Some 4"
  by code_simp+

text \<open>
  C8 fails on a malformed request. Alice, White in the new game \<open>g1\<close>, asks at 1000 ms for her
  pawn at row 6, column 4 to go to row 4.5, column 4, or sends no destination row at all. The
  bounds check lets the request pass, the pawn is White's, so 1000 ms are taken from White's clock
  and \<open>lastMoveTime\<close> is set to 1000; then \<open>this.board[toRow]\<close> is \<open>undefined\<close> and
  reading its column throws a \<open>TypeError\<close>, which nothing catches. The move is not made, yet
  the clocks of the session have changed, and no \<open>moveError\<close> event (no event at all) goes to
  Alice. With the origin row 6.5 the exception comes before any write: the state is unchanged, and
  again nothing is sent to the caller.
\<close>

theorem malformed_move_throws_after_clock_write:
  "handleMoveRaw exServer ''w1'' ''g1'' (Num 6) (Num 4) (Num (9 / 2)) (Num 4) 1000 =
     Uncaught TypeError
       (exServer\<lparr>games := [(''g1'', exGame\<lparr>whiteTime := 899000, lastMoveTime := 1000\<rparr>)]\<rparr>)
   \<and> handleMoveRaw exServer ''w1'' ''g1'' (Num 6) (Num 4) Undefined (Num 4) 1000 =
     Uncaught TypeError
       (exServer\<lparr>games := [(''g1'', exGame\<lparr>whiteTime := 899000, lastMoveTime := 1000\<rparr>)]\<rparr>)
   \<and> handleMoveRaw exServer ''w1'' ''g1'' (Num (13 / 2)) (Num 4) (Num 4) (Num 4) 1000 =
     Uncaught TypeError exServer
   \<and> whiteTime exGame = 900000 \<and> lastMoveTime exGame = 0"
  by (simp add: handleMoveRaw_def makeMoveRaw_def setGame_def board_defs ex_defs Let_def
      indexOf_examples del: indexOf.simps(1))

end
